theory Spec2Isabelle
  imports Complex_Main
begin

section \<open>Ordo: order and reservation routers\<close>

text \<open>
  A shallow embedding of \<^verbatim>\<open>apps/api/src/routers\<close> (order and reservation routers)
  and of the request context of the tRPC server.

  Conventions of the model.
  \<^item> A procedure is a function from its input, the request context and the database
    to a result and the database after the call. A thrown \<^verbatim>\<open>TRPCError\<close> is
    \<open>Inl code\<close>; an exception thrown by the ORM itself (a record to update that does
    not exist) reaches the caller as \<open>INTERNAL_SERVER_ERROR\<close>.
  \<^item> A table is the list of its rows in insertion order. Identifiers generated by
    the ORM are natural numbers drawn from the counter \<open>nextId\<close> of the database.
  \<^item> A JavaScript number is a value of a type \<open>'n\<close> that the model leaves open.
    Its arithmetic (\<^verbatim>\<open>+\<close>, \<^verbatim>\<open>-\<close>, \<^verbatim>\<open>*\<close>, the comparisons, truthiness, the
    value of a numeric literal) is a parameter, the record \<open>platform\<close>; nothing is
    assumed of it, so no law of exact arithmetic (associativity, for one) is used and
    what is proved holds for IEEE 754 doubles. An amount column of a table holds the
    number that \<^verbatim>\<open>Number(column)\<close> reads.
  \<^item> A procedure with \<^verbatim>\<open>.input(schema)\<close> validates its input after its
    middlewares and before its handler; an input the schema refuses is answered with
    \<open>BAD_REQUEST\<close>. A constraint of a schema that the type of the model's input
    record already expresses (a string, an integer, a member of an enumeration) is
    not checked again. The length of a string is the number of its characters.
  \<^item> A JavaScript value that may be \<^verbatim>\<open>undefined\<close> is an \<open>option\<close>; \<^verbatim>\<open>NaN\<close> is
    \<open>None\<close> where a number is parsed from a string.
\<close>

subsection \<open>Errors and the request context\<close>

datatype error =
  UNAUTHORIZED | FORBIDDEN | NOT_FOUND | PRECONDITION_FAILED | BAD_REQUEST
  | INTERNAL_SERVER_ERROR

type_synonym ident = nat

text \<open>\<^verbatim>\<open>Context.user\<close>: the staff user resolved from the bearer token, if any.\<close>

record ctx_user =
  user_id :: ident
  user_email :: string
  user_role :: string

record trpc_context =
  ctx_user :: "ctx_user option"

subsection \<open>Authorization middleware\<close>

text \<open>
  A middleware receives the continuation \<open>next\<close> (the rest of the chain and the
  handler), the context and the state the handler works on.
\<close>

type_synonym ('s, 'a) procedure = "trpc_context \<Rightarrow> 's \<Rightarrow> (error + 'a) \<times> 's"

definition isAuthed :: "('s, 'a) procedure \<Rightarrow> ('s, 'a) procedure" where
  "isAuthed next ctx s =
     (case ctx_user ctx of
        None \<Rightarrow> (Inl UNAUTHORIZED, s)
      | Some u \<Rightarrow> next ctx s)"

definition requireRole :: "string list \<Rightarrow> ('s, 'a) procedure \<Rightarrow> ('s, 'a) procedure" where
  "requireRole roles next ctx s =
     (case ctx_user ctx of
        None \<Rightarrow> (Inl UNAUTHORIZED, s)
      | Some u \<Rightarrow>
          if user_role u \<notin> set roles then (Inl FORBIDDEN, s)
          else next ctx s)"

definition publicProcedure :: "('s, 'a) procedure \<Rightarrow> ('s, 'a) procedure" where
  "publicProcedure next = next"

definition protectedProcedure :: "('s, 'a) procedure \<Rightarrow> ('s, 'a) procedure" where
  "protectedProcedure = isAuthed"

definition adminProcedure :: "('s, 'a) procedure \<Rightarrow> ('s, 'a) procedure" where
  "adminProcedure = requireRole [''ADMIN'']"

definition kitchenProcedure :: "('s, 'a) procedure \<Rightarrow> ('s, 'a) procedure" where
  "kitchenProcedure = requireRole [''ADMIN'', ''KITCHEN'']"

definition staffProcedure :: "('s, 'a) procedure \<Rightarrow> ('s, 'a) procedure" where
  "staffProcedure = requireRole [''ADMIN'', ''KITCHEN'', ''WAITER'', ''CASHIER'']"

text \<open>
  \<^verbatim>\<open>.input(schema)\<close>: \<open>valid\<close> is the verdict of the schema on the input of the
  request.
\<close>

definition inputSchema :: "bool \<Rightarrow> ('s, 'a) procedure \<Rightarrow> ('s, 'a) procedure" where
  "inputSchema valid next ctx s = (if valid then next ctx s else (Inl BAD_REQUEST, s))"

subsection \<open>Numbers and the validation library\<close>

text \<open>
  What the model takes from the JavaScript platform and from the validation library
  \<^verbatim>\<open>zod\<close>: the number a decimal literal or an integer denotes, the arithmetic and the
  comparisons \<^verbatim>\<open><\<close> and \<^verbatim>\<open><=\<close> of numbers, whether a number is truthy, and the
  strings \<^verbatim>\<open>z.string().email()\<close> accepts. A number in an input is one that
  \<^verbatim>\<open>z.number()\<close> accepted.
\<close>

record 'n platform =
  js_num :: "rat \<Rightarrow> 'n"
  js_add :: "'n \<Rightarrow> 'n \<Rightarrow> 'n"
  js_sub :: "'n \<Rightarrow> 'n \<Rightarrow> 'n"
  js_mul :: "'n \<Rightarrow> 'n \<Rightarrow> 'n"
  js_lt :: "'n \<Rightarrow> 'n \<Rightarrow> bool"
  js_le :: "'n \<Rightarrow> 'n \<Rightarrow> bool"
  js_truthy :: "'n \<Rightarrow> bool"
  zod_email :: "string \<Rightarrow> bool"

text \<open>\<^verbatim>\<open>a > b\<close> is \<^verbatim>\<open>b < a\<close> and \<^verbatim>\<open>a >= b\<close> is \<^verbatim>\<open>b <= a\<close>, also for \<^verbatim>\<open>NaN\<close>.\<close>

definition js_gt :: "'n platform \<Rightarrow> 'n \<Rightarrow> 'n \<Rightarrow> bool" where
  "js_gt J a b = js_lt J b a"

definition js_ge :: "'n platform \<Rightarrow> 'n \<Rightarrow> 'n \<Rightarrow> bool" where
  "js_ge J a b = js_le J b a"

subsection \<open>Tables\<close>

text \<open>
  A delivery address as \<^verbatim>\<open>createOrderSchema\<close> accepts it; its parts are constrained by
  type only, and the routers store it as it comes.
\<close>

type_synonym address = string
type_synonym timestamp = int

record 'n item_modifier =
  mod_id :: ident
  mod_name :: string
  mod_priceAdjustment :: 'n

record 'n menu_item =
  mi_id :: ident
  mi_name :: string
  mi_price :: 'n
  mi_isAvailable :: bool
  mi_modifiers :: "'n item_modifier list"

record customer =
  cu_id :: ident
  cu_phone :: string
  cu_name :: string
  cu_email :: "string option"
  cu_addresses :: "address list"

datatype order_type = DINE_IN | TAKEOUT | DELIVERY

datatype order_status =
  PENDING | CONFIRMED | PREPARING | READY | OUT_FOR_DELIVERY | DELIVERED | COMPLETED
  | CANCELLED

datatype payment_method = PAY_cash | PAY_card | PAY_transfer

record 'n applied_modifier =
  am_id :: ident
  am_name :: string
  am_priceAdjustment :: 'n
  am_selectedOptions :: "string list option"

record 'n order_item =
  oi_menuItemId :: ident
  oi_quantity :: int
  oi_unitPrice :: 'n
  oi_totalPrice :: 'n
  oi_specialInstructions :: "string option"
  oi_modifiers :: "'n applied_modifier list option"

text \<open>
  An \<^verbatim>\<open>Order\<close> row. \<open>ord_paymentStatus = None\<close> stands for the column default of
  the schema, which the routers never write.
\<close>

record 'n order =
  ord_id :: ident
  ord_orderNumber :: string
  ord_customerId :: ident
  ord_orderType :: order_type
  ord_status :: order_status
  ord_subtotal :: 'n
  ord_taxAmount :: 'n
  ord_deliveryFee :: 'n
  ord_tipAmount :: 'n
  ord_discountAmount :: 'n
  ord_total :: 'n
  ord_paymentStatus :: "string option"
  ord_paymentReference :: "string option"
  ord_paymentMethod :: payment_method
  ord_customerName :: string
  ord_customerPhone :: string
  ord_deliveryAddress :: "address option"
  ord_tableNumber :: "int option"
  ord_specialInstructions :: "string option"
  ord_orderItems :: "'n order_item list"
  ord_readyAt :: "timestamp option"
  ord_deliveredAt :: "timestamp option"
  ord_estimatedReadyTime :: "timestamp option"

text \<open>
  \<^verbatim>\<open>RestaurantConfig\<close>. The JSON columns \<^verbatim>\<open>deliveryConfig\<close>, \<^verbatim>\<open>services\<close> and
  \<^verbatim>\<open>openingHours\<close> are read with \<^verbatim>\<open>as any\<close>; a property that may be missing is an
  \<open>option\<close>, and \<^verbatim>\<open>openingHours\<close> is the association list of its keys.
\<close>

record 'n delivery_config =
  dc_fee :: "'n option"
  dc_minimum_order :: "'n option"
  dc_is_free_over_amount :: "'n option"

record day_schedule =
  ds_open :: string
  ds_close :: string
  ds_is_closed :: bool

record services =
  svc_dine_in :: bool
  svc_takeout :: bool
  svc_delivery :: bool
  svc_reservations :: bool

record 'n restaurant_config =
  cfg_isActive :: bool
  cfg_openingHours :: "(string \<times> day_schedule) list"
  cfg_services :: services
  cfg_deliveryConfig :: "'n delivery_config option"

datatype reservation_status =
  R_PENDING | R_CONFIRMED | R_SEATED | R_COMPLETED | R_CANCELLED | R_NO_SHOW

text \<open>A JavaScript \<^verbatim>\<open>Date\<close>: milliseconds since the epoch, or \<^verbatim>\<open>Invalid Date\<close>.\<close>

datatype jsdate = InvalidDate | Date int

record reservation =
  res_id :: ident
  res_customerId :: ident
  res_customerName :: string
  res_customerPhone :: string
  res_reservationDate :: jsdate
  res_reservationTime :: string
  res_partySize :: int
  res_status :: reservation_status
  res_tablePreferences :: "string option"
  res_specialRequests :: "string option"
  res_notes :: "string option"

record 'n store =
  menuItems :: "'n menu_item list"
  restaurantConfigs :: "'n restaurant_config list"
  customers :: "customer list"
  orders :: "'n order list"
  reservations :: "reservation list"
  nextId :: nat

text \<open>
  \<^verbatim>\<open>prisma.<table>.update({ where, data })\<close>: the row selected by a unique key is
  replaced and returned; the ORM throws when there is none.
\<close>

fun updateFirst :: "('a \<Rightarrow> bool) \<Rightarrow> ('a \<Rightarrow> 'a) \<Rightarrow> 'a list \<Rightarrow> ('a \<times> 'a list) option" where
  "updateFirst P f [] = None"
| "updateFirst P f (x # xs) =
     (if P x then Some (f x, f x # xs)
      else (case updateFirst P f xs of
              None \<Rightarrow> None
            | Some (y, ys) \<Rightarrow> Some (y, x # ys)))"

text \<open>\<^verbatim>\<open>prisma.restaurantConfig.findFirst({ where: { isActive: true } })\<close>\<close>

definition activeConfig :: "'n store \<Rightarrow> 'n restaurant_config option" where
  "activeConfig s = find cfg_isActive (restaurantConfigs s)"

subsection \<open>Order workflow: \<^verbatim>\<open>order.create\<close>\<close>

record modifier_input =
  in_modifierId :: ident
  in_selectedOptions :: "string list option"

record order_item_input =
  in_menuItemId :: ident
  in_quantity :: int
  in_specialInstructions :: "string option"
  in_modifiers :: "modifier_input list option"

record customer_info =
  ci_name :: string
  ci_phone :: string
  ci_email :: "string option"

record create_order_input =
  co_orderType :: order_type
  co_items :: "order_item_input list"
  co_customerInfo :: customer_info
  co_deliveryAddress :: "address option"
  co_tableNumber :: "int option"
  co_specialInstructions :: "string option"
  co_paymentMethod :: payment_method

text \<open>
  \<^verbatim>\<open>orderItemSchema\<close> and \<^verbatim>\<open>createOrderSchema\<close>: a quantity of at least 1, at
  least one item, a name of at least 2 and a phone of at least 10 characters, and an
  email, when there is one, that \<^verbatim>\<open>z.string().email()\<close> accepts.
\<close>

definition orderItemSchema :: "order_item_input \<Rightarrow> bool" where
  "orderItemSchema item \<longleftrightarrow> 1 \<le> in_quantity item"

definition createOrderSchema :: "'n platform \<Rightarrow> create_order_input \<Rightarrow> bool" where
  "createOrderSchema J input \<longleftrightarrow>
     list_all orderItemSchema (co_items input) \<and> 1 \<le> length (co_items input)
     \<and> 2 \<le> length (ci_name (co_customerInfo input))
     \<and> 10 \<le> length (ci_phone (co_customerInfo input))
     \<and> (case ci_email (co_customerInfo input) of
           None \<Rightarrow> True
         | Some email \<Rightarrow> zod_email J email)"

text \<open>
  The inner loop \<^verbatim>\<open>for (const mod of item.modifiers)\<close>: the state is the pair of
  \<^verbatim>\<open>itemPrice\<close> and \<^verbatim>\<open>modifiersApplied\<close>. A requested modifier that
  \<^verbatim>\<open>menuItem.modifiers.find\<close> does not find is skipped.
\<close>

fun applyModifiers ::
  "'n platform \<Rightarrow> 'n item_modifier list \<Rightarrow> modifier_input list
     \<Rightarrow> 'n \<times> 'n applied_modifier list \<Rightarrow> 'n \<times> 'n applied_modifier list" where
  "applyModifiers J ms [] acc = acc"
| "applyModifiers J ms (md # mods) (itemPrice, modifiersApplied) =
     (case find (\<lambda>m. mod_id m = in_modifierId md) ms of
        None \<Rightarrow> applyModifiers J ms mods (itemPrice, modifiersApplied)
      | Some modifier \<Rightarrow>
          applyModifiers J ms mods
            (js_add J itemPrice (mod_priceAdjustment modifier),
             modifiersApplied @
               [\<lparr>am_id = mod_id modifier, am_name = mod_name modifier,
                 am_priceAdjustment = mod_priceAdjustment modifier,
                 am_selectedOptions = in_selectedOptions md\<rparr>]))"

text \<open>
  The outer loop \<^verbatim>\<open>for (const item of orderItems)\<close>: the state is the pair of
  \<^verbatim>\<open>subtotal\<close> and \<^verbatim>\<open>processedItems\<close>; a missing or unavailable menu item throws
  \<open>NOT_FOUND\<close>. The quantity is the number of that integer value.
\<close>

fun processItems ::
  "'n platform \<Rightarrow> 'n menu_item list \<Rightarrow> order_item_input list
     \<Rightarrow> 'n \<times> 'n order_item list \<Rightarrow> error + 'n \<times> 'n order_item list" where
  "processItems J menu [] acc = Inr acc"
| "processItems J menu (item # rest) (subtotal, processedItems) =
     (case find (\<lambda>m. mi_id m = in_menuItemId item) menu of
        None \<Rightarrow> Inl NOT_FOUND
      | Some menuItem \<Rightarrow>
          if \<not> mi_isAvailable menuItem then Inl NOT_FOUND
          else
            (case (case in_modifiers item of
                     None \<Rightarrow> (mi_price menuItem, [])
                   | Some mods \<Rightarrow>
                       applyModifiers J (mi_modifiers menuItem) mods
                         (mi_price menuItem, []))
             of (itemPrice, modifiersApplied) \<Rightarrow>
               let totalItemPrice =
                     js_mul J itemPrice (js_num J (of_int (in_quantity item))) in
               processItems J menu rest
                 (js_add J subtotal totalItemPrice,
                  processedItems @
                    [\<lparr>oi_menuItemId = in_menuItemId item,
                      oi_quantity = in_quantity item,
                      oi_unitPrice = itemPrice,
                      oi_totalPrice = totalItemPrice,
                      oi_specialInstructions = in_specialInstructions item,
                      oi_modifiers =
                        (if length modifiersApplied > 0 then Some modifiersApplied
                         else None)\<rparr>])))"

text \<open>
  The delivery block. \<^verbatim>\<open>deliveryConfig.fee || 0\<close> is the fee when it is there and
  truthy, and 0 otherwise; a comparison with a missing \<^verbatim>\<open>minimum_order\<close> is false; a
  missing \<^verbatim>\<open>is_free_over_amount\<close> is falsy.
\<close>

definition computeDeliveryFee ::
  "'n platform \<Rightarrow> order_type \<Rightarrow> 'n restaurant_config option \<Rightarrow> 'n \<Rightarrow> error + 'n" where
  "computeDeliveryFee J orderType config subtotal =
     (if orderType = DELIVERY then
        (case (case config of None \<Rightarrow> None | Some c \<Rightarrow> cfg_deliveryConfig c) of
           None \<Rightarrow> Inr (js_num J 0)
         | Some deliveryConfig \<Rightarrow>
             let deliveryFee =
                   (case dc_fee deliveryConfig of
                      None \<Rightarrow> js_num J 0
                    | Some f \<Rightarrow> if js_truthy J f then f else js_num J 0) in
             if (case dc_minimum_order deliveryConfig of
                   None \<Rightarrow> False | Some m \<Rightarrow> js_lt J subtotal m)
             then Inl PRECONDITION_FAILED
             else if (case dc_is_free_over_amount deliveryConfig of
                        None \<Rightarrow> False | Some a \<Rightarrow> js_truthy J a \<and> js_ge J subtotal a)
             then Inr (js_num J 0)
             else Inr deliveryFee)
      else Inr (js_num J 0))"

text \<open>
  Modelled from the spec: \<^verbatim>\<open>dbUtils.calculateOrderTotal\<close> of the package
  \<^verbatim>\<open>@ordo/database\<close>, which is not among the sources. The spec (4.3, step 5, and
  the data model of Order): tax = subtotal times the rate; total = subtotal + tax +
  delivery fee + tip - discount, summed from left to right.
\<close>

record 'n order_totals =
  tot_subtotal :: 'n
  tot_taxAmount :: 'n
  tot_deliveryFee :: 'n
  tot_tipAmount :: 'n
  tot_discountAmount :: 'n
  tot_total :: 'n

definition calculateOrderTotal ::
  "'n platform \<Rightarrow> 'n \<Rightarrow> 'n \<Rightarrow> 'n \<Rightarrow> 'n \<Rightarrow> 'n \<Rightarrow> 'n order_totals" where
  "calculateOrderTotal J subtotal taxRate deliveryFee tipAmount discountAmount =
     (let taxAmount = js_mul J subtotal taxRate in
      \<lparr>tot_subtotal = subtotal, tot_taxAmount = taxAmount, tot_deliveryFee = deliveryFee,
        tot_tipAmount = tipAmount, tot_discountAmount = discountAmount,
        tot_total =
          js_sub J
            (js_add J (js_add J (js_add J subtotal taxAmount) deliveryFee) tipAmount)
            discountAmount\<rparr>)"

text \<open>
  Modelled from the spec: the column defaults of the Order table (the Prisma schema is
  not among the sources) for the columns \<^verbatim>\<open>order.create\<close> does not write. The spec
  (4.3, step 5; 4.4): tip and discount start at 0, the status at \<open>PENDING\<close>.
\<close>

definition defaultTipAmount :: "'n platform \<Rightarrow> 'n" where
  "defaultTipAmount J = js_num J 0"

definition defaultDiscountAmount :: "'n platform \<Rightarrow> 'n" where
  "defaultDiscountAmount J = js_num J 0"

definition defaultOrderStatus :: order_status where
  "defaultOrderStatus = PENDING"

text \<open>
  \<^verbatim>\<open>// Crear o encontrar cliente\<close> of \<^verbatim>\<open>order.create\<close>: the customer found by phone,
  with name and email filled in when they are empty, or a new row.
\<close>

definition falsy :: "string option \<Rightarrow> bool" where
  "falsy v = (case v of None \<Rightarrow> True | Some str \<Rightarrow> str = [])"

definition resolveOrderCustomer ::
  "customer_info \<Rightarrow> address option \<Rightarrow> 'n store \<Rightarrow> (error + customer) \<times> 'n store" where
  "resolveOrderCustomer customerInfo deliveryAddress s =
     (case find (\<lambda>c. cu_phone c = ci_phone customerInfo) (customers s) of
        None \<Rightarrow>
          let customer =
            \<lparr>cu_id = nextId s, cu_phone = ci_phone customerInfo,
              cu_name = ci_name customerInfo, cu_email = ci_email customerInfo,
              cu_addresses = (case deliveryAddress of None \<Rightarrow> [] | Some a \<Rightarrow> [a])\<rparr>
          in (Inr customer, s\<lparr>customers := customers s @ [customer], nextId := Suc (nextId s)\<rparr>)
      | Some customer \<Rightarrow>
          let setName = (cu_name customer = [] \<and> ci_name customerInfo \<noteq> []);
              setEmail = (falsy (cu_email customer) \<and> \<not> falsy (ci_email customerInfo))
          in
          if setName \<or> setEmail then
            (case updateFirst (\<lambda>c. cu_id c = cu_id customer)
                    (\<lambda>c. c\<lparr>cu_name := (if setName then ci_name customerInfo else cu_name c),
                           cu_email := (if setEmail then ci_email customerInfo else cu_email c)\<rparr>)
                    (customers s) of
               None \<Rightarrow> (Inl INTERNAL_SERVER_ERROR, s)
             | Some (customer', rows) \<Rightarrow> (Inr customer', s\<lparr>customers := rows\<rparr>))
          else (Inr customer, s))"

text \<open>
  The handler of \<^verbatim>\<open>order.create\<close>. \<^verbatim>\<open>dbUtils.generateOrderNumber()\<close> is not
  among the sources: its result is the parameter \<open>orderNumber\<close>.
\<close>

definition order_create_handler ::
  "'n platform \<Rightarrow> create_order_input \<Rightarrow> string \<Rightarrow> 'n store
     \<Rightarrow> (error + 'n order) \<times> 'n store" where
  "order_create_handler J input orderNumber s =
     (case processItems J (menuItems s) (co_items input) (js_num J 0, []) of
        Inl e \<Rightarrow> (Inl e, s)
      | Inr (subtotal, processedItems) \<Rightarrow>
          (case computeDeliveryFee J (co_orderType input) (activeConfig s) subtotal of
             Inl e \<Rightarrow> (Inl e, s)
           | Inr deliveryFee \<Rightarrow>
               let totals =
                     calculateOrderTotal J subtotal (js_num J (16 / 100)) deliveryFee
                       (js_num J 0) (js_num J 0) in
               (case resolveOrderCustomer (co_customerInfo input) (co_deliveryAddress input) s of
                  (Inl e, s1) \<Rightarrow> (Inl e, s1)
                | (Inr customer, s1) \<Rightarrow>
                    let order =
                      \<lparr>ord_id = nextId s1,
                        ord_orderNumber = orderNumber,
                        ord_customerId = cu_id customer,
                        ord_orderType = co_orderType input,
                        ord_status = defaultOrderStatus,
                        ord_subtotal = tot_subtotal totals,
                        ord_taxAmount = tot_taxAmount totals,
                        ord_deliveryFee = tot_deliveryFee totals,
                        ord_tipAmount = defaultTipAmount J,
                        ord_discountAmount = defaultDiscountAmount J,
                        ord_total = tot_total totals,
                        ord_paymentStatus = None,
                        ord_paymentReference = None,
                        ord_paymentMethod = co_paymentMethod input,
                        ord_customerName = ci_name (co_customerInfo input),
                        ord_customerPhone = ci_phone (co_customerInfo input),
                        ord_deliveryAddress = co_deliveryAddress input,
                        ord_tableNumber = co_tableNumber input,
                        ord_specialInstructions = co_specialInstructions input,
                        ord_orderItems = processedItems,
                        ord_readyAt = None,
                        ord_deliveredAt = None,
                        ord_estimatedReadyTime = None\<rparr>
                    in (Inr order,
                        s1\<lparr>orders := orders s1 @ [order], nextId := Suc (nextId s1)\<rparr>))))"

text \<open>\<^verbatim>\<open>create: publicProcedure.input(createOrderSchema).mutation(...)\<close>\<close>

definition order_create ::
  "'n platform \<Rightarrow> create_order_input \<Rightarrow> string \<Rightarrow> ('n store, 'n order) procedure" where
  "order_create J input orderNumber =
     publicProcedure
       (inputSchema (createOrderSchema J input)
          (\<lambda>ctx. order_create_handler J input orderNumber))"

subsection \<open>Order workflow: status and payment\<close>

record update_status_input =
  us_id :: ident
  us_status :: order_status
  us_estimatedReadyTime :: "timestamp option"

text \<open>
  \<^verbatim>\<open>updateOrderStatusSchema\<close>: an identifier, a status of the enumeration and an
  optional date, which is what the input record is.
\<close>

definition updateOrderStatusSchema :: "update_status_input \<Rightarrow> bool" where
  "updateOrderStatusSchema input \<longleftrightarrow> True"

text \<open>
  The \<^verbatim>\<open>updateData\<close> of \<^verbatim>\<open>order.updateStatus\<close>, applied to the row it updates;
  \<open>now\<close> is \<^verbatim>\<open>new Date()\<close>.
\<close>

definition statusUpdateData ::
  "update_status_input \<Rightarrow> timestamp \<Rightarrow> 'n order \<Rightarrow> 'n order" where
  "statusUpdateData input now row =
     row\<lparr>ord_status := us_status input,
         ord_readyAt := (if us_status input = READY then Some now else ord_readyAt row),
         ord_deliveredAt :=
           (if us_status input \<noteq> READY \<and> us_status input = DELIVERED then Some now
            else ord_deliveredAt row),
         ord_estimatedReadyTime :=
           (case us_estimatedReadyTime input of
              None \<Rightarrow> ord_estimatedReadyTime row
            | Some t \<Rightarrow> Some t)\<rparr>"

definition order_updateStatus_handler ::
  "update_status_input \<Rightarrow> timestamp \<Rightarrow> 'n store \<Rightarrow> (error + 'n order) \<times> 'n store" where
  "order_updateStatus_handler input now s =
     (case updateFirst (\<lambda>row. ord_id row = us_id input) (statusUpdateData input now)
             (orders s) of
        None \<Rightarrow> (Inl INTERNAL_SERVER_ERROR, s)
      | Some (order, rows) \<Rightarrow> (Inr order, s\<lparr>orders := rows\<rparr>))"

text \<open>\<^verbatim>\<open>updateStatus: staffProcedure.input(updateOrderStatusSchema).mutation(...)\<close>\<close>

definition order_updateStatus ::
  "update_status_input \<Rightarrow> timestamp \<Rightarrow> ('n store, 'n order) procedure" where
  "order_updateStatus input now =
     staffProcedure
       (inputSchema (updateOrderStatusSchema input)
          (\<lambda>ctx. order_updateStatus_handler input now))"

record 'n confirm_payment_input =
  cp_id :: ident
  cp_paymentReference :: "string option"
  cp_tipAmount :: "'n option"

text \<open>
  The schema of \<^verbatim>\<open>order.confirmPayment\<close>: an identifier, an optional string and an
  optional number, which is what the input record is.
\<close>

definition confirmPaymentSchema :: "'n confirm_payment_input \<Rightarrow> bool" where
  "confirmPaymentSchema input \<longleftrightarrow> True"

text \<open>
  \<^verbatim>\<open>order.confirmPayment\<close>. Under \<^verbatim>\<open>if (tipAmount && tipAmount > 0)\<close>, when
  \<^verbatim>\<open>findUnique\<close> finds the order: the new tip and the total recomputed from the
  stored amounts, summed from left to right as the source writes the expression.
\<close>

definition tipTotals ::
  "'n platform \<Rightarrow> 'n confirm_payment_input \<Rightarrow> 'n store \<Rightarrow> ('n \<times> 'n) option" where
  "tipTotals J input s =
     (case cp_tipAmount input of
        None \<Rightarrow> None
      | Some tipAmount \<Rightarrow>
          if js_truthy J tipAmount \<and> js_gt J tipAmount (js_num J 0) then
            (case find (\<lambda>row. ord_id row = cp_id input) (orders s) of
               None \<Rightarrow> None
             | Some order \<Rightarrow>
                 Some (tipAmount,
                       js_sub J
                         (js_add J
                            (js_add J (js_add J (ord_subtotal order) (ord_taxAmount order))
                               (ord_deliveryFee order))
                            tipAmount)
                         (ord_discountAmount order)))
          else None)"

text \<open>
  The \<^verbatim>\<open>updateData\<close> of \<^verbatim>\<open>order.confirmPayment\<close>, applied to the row it updates:
  the payment status always, the reference when it is truthy, tip and total when they
  were computed.
\<close>

definition paymentUpdateData ::
  "'n confirm_payment_input \<Rightarrow> ('n \<times> 'n) option \<Rightarrow> 'n order \<Rightarrow> 'n order" where
  "paymentUpdateData input newTotals row =
     row\<lparr>ord_paymentStatus := Some ''PAID'',
         ord_paymentReference :=
           (if falsy (cp_paymentReference input) then ord_paymentReference row
            else cp_paymentReference input),
         ord_tipAmount :=
           (case newTotals of None \<Rightarrow> ord_tipAmount row | Some (tip, newTotal) \<Rightarrow> tip),
         ord_total :=
           (case newTotals of None \<Rightarrow> ord_total row | Some (tip, newTotal) \<Rightarrow> newTotal)\<rparr>"

definition order_confirmPayment_handler ::
  "'n platform \<Rightarrow> 'n confirm_payment_input \<Rightarrow> 'n store
     \<Rightarrow> (error + 'n order) \<times> 'n store" where
  "order_confirmPayment_handler J input s =
     (case updateFirst (\<lambda>row. ord_id row = cp_id input)
             (paymentUpdateData input (tipTotals J input s)) (orders s) of
        None \<Rightarrow> (Inl INTERNAL_SERVER_ERROR, s)
      | Some (updatedOrder, rows) \<Rightarrow> (Inr updatedOrder, s\<lparr>orders := rows\<rparr>))"

text \<open>\<^verbatim>\<open>confirmPayment: staffProcedure.input(z.object({...})).mutation(...)\<close>\<close>

definition order_confirmPayment ::
  "'n platform \<Rightarrow> 'n confirm_payment_input \<Rightarrow> ('n store, 'n order) procedure" where
  "order_confirmPayment J input =
     staffProcedure
       (inputSchema (confirmPaymentSchema input)
          (\<lambda>ctx. order_confirmPayment_handler J input))"

subsection \<open>JavaScript strings and numbers in the reservation router\<close>

text \<open>\<^verbatim>\<open>str.split(sep)\<close> for a separator of one character.\<close>

fun split :: "char \<Rightarrow> string \<Rightarrow> string list" where
  "split sep [] = [[]]"
| "split sep (c # cs) =
     (if c = sep then [] # split sep cs
      else (case split sep cs of
              [] \<Rightarrow> [[c]]
            | part # parts \<Rightarrow> (c # part) # parts))"

definition isDigit :: "char \<Rightarrow> bool" where
  "isDigit c \<longleftrightarrow> c \<in> set ''0123456789''"

definition digitValue :: "char \<Rightarrow> nat" where
  "digitValue c = of_char c - 48"

text \<open>
  \<^verbatim>\<open>Number(str)\<close> on strings of decimal digits, the form of the parts of every time
  the input schema accepts (\<^verbatim>\<open>/^([01]?[0-9]|2[0-3]):[0-5][0-9]$/\<close>) and of the opening
  hours of \<^verbatim>\<open>prisma/seed.ts\<close>; the empty string is 0. Any other string is \<^verbatim>\<open>NaN\<close>
  here (\<open>None\<close>): signs, fractions, exponents and blanks are outside the model.
\<close>

definition Number :: "string \<Rightarrow> nat option" where
  "Number str =
     (if list_all isDigit str then Some (foldl (\<lambda>n c. 10 * n + digitValue c) 0 str)
      else None)"

text \<open>
  \<^verbatim>\<open>const [hours, minutes] = time.split(':').map(Number)\<close> followed by
  \<^verbatim>\<open>hours * 60 + minutes\<close>: a missing part is \<^verbatim>\<open>undefined\<close>, and the sum is then
  \<^verbatim>\<open>NaN\<close>, as it is when a part is.
\<close>

definition minutesOf :: "string \<Rightarrow> nat option" where
  "minutesOf time =
     (case map Number (split CHR '':'' time) of
        hours # minutes # rest \<Rightarrow>
          (case (hours, minutes) of
             (Some h, Some m) \<Rightarrow> Some (h * 60 + m)
           | _ \<Rightarrow> None)
      | _ \<Rightarrow> None)"

text \<open>\<^verbatim>\<open>n.toString()\<close> for a natural number, and \<^verbatim>\<open>.padStart(2, '0')\<close>.\<close>

definition digitChar :: "nat \<Rightarrow> char" where
  "digitChar d = ''0123456789'' ! d"

fun toString :: "nat \<Rightarrow> string" where
  "toString n = (if n < 10 then [digitChar n] else toString (n div 10) @ [digitChar (n mod 10)])"

definition padStart2 :: "string \<Rightarrow> string" where
  "padStart2 str = replicate (2 - length str) CHR ''0'' @ str"

text \<open>
  \<^verbatim>\<open>dayNames[selectedDate.getDay()]\<close> used as a property key. The model takes the
  server's time zone to be UTC; 1 January 1970 was a Thursday. For an invalid date
  \<^verbatim>\<open>getDay()\<close> is \<^verbatim>\<open>NaN\<close>, the array element \<^verbatim>\<open>undefined\<close> and the key
  \<^verbatim>\<open>"undefined"\<close>.
\<close>

definition dayNames :: "string list" where
  "dayNames =
     [''sunday'', ''monday'', ''tuesday'', ''wednesday'', ''thursday'', ''friday'',
      ''saturday'']"

definition getDay :: "jsdate \<Rightarrow> nat option" where
  "getDay d =
     (case d of
        InvalidDate \<Rightarrow> None
      | Date ms \<Rightarrow> Some (nat ((ms div 86400000 + 4) mod 7)))"

definition dayOfWeek :: "jsdate \<Rightarrow> string" where
  "dayOfWeek selectedDate =
     (case getDay selectedDate of
        None \<Rightarrow> ''undefined''
      | Some i \<Rightarrow> dayNames ! i)"

definition daySchedule :: "'n restaurant_config \<Rightarrow> jsdate \<Rightarrow> day_schedule option" where
  "daySchedule config selectedDate =
     map_of (cfg_openingHours config) (dayOfWeek selectedDate)"

subsection \<open>Reservation workflow: \<^verbatim>\<open>reservation.create\<close>\<close>

text \<open>
  The input of \<^verbatim>\<open>reservation.create\<close>. The date is the \<^verbatim>\<open>Date\<close> that
  \<^verbatim>\<open>new Date(reservationDate)\<close> builds from the string of the request.
\<close>

record create_reservation_input =
  cr_customerName :: string
  cr_customerPhone :: string
  cr_reservationDate :: jsdate
  cr_reservationTime :: string
  cr_partySize :: int
  cr_tablePreferences :: "string option"
  cr_specialRequests :: "string option"

text \<open>The regular expression \<^verbatim>\<open>/^([01]?[0-9]|2[0-3]):[0-5][0-9]$/\<close>.\<close>

definition timeFormat :: "string \<Rightarrow> bool" where
  "timeFormat str \<longleftrightarrow>
     (length str = 4 \<and> isDigit (str ! 0) \<and> str ! 1 = CHR '':''
        \<and> str ! 2 \<in> set ''012345'' \<and> isDigit (str ! 3))
     \<or> (length str = 5
          \<and> ((str ! 0 \<in> set ''01'' \<and> isDigit (str ! 1))
               \<or> (str ! 0 = CHR ''2'' \<and> str ! 1 \<in> set ''0123''))
          \<and> str ! 2 = CHR '':'' \<and> str ! 3 \<in> set ''012345'' \<and> isDigit (str ! 4))"

text \<open>
  \<^verbatim>\<open>createReservationSchema\<close>. \<open>today\<close> is the time value of \<^verbatim>\<open>today\<close> in the
  refinement of the date, after \<^verbatim>\<open>today.setHours(0, 0, 0, 0)\<close>: the local midnight
  of the day of the request. A comparison with an invalid date is false.
\<close>

definition createReservationSchema :: "int \<Rightarrow> create_reservation_input \<Rightarrow> bool" where
  "createReservationSchema today input \<longleftrightarrow>
     2 \<le> length (cr_customerName input)
     \<and> 10 \<le> length (cr_customerPhone input)
     \<and> (case cr_reservationDate input of
           InvalidDate \<Rightarrow> False
         | Date selectedDate \<Rightarrow> selectedDate \<ge> today)
     \<and> timeFormat (cr_reservationTime input)
     \<and> 1 \<le> cr_partySize input \<and> cr_partySize input \<le> 20"

text \<open>
  The check of the opening hours:
  \<^verbatim>\<open>reservationMinutes < openMinutesTotal || reservationMinutes > closeMinutesTotal - 120\<close>.
  A comparison with \<^verbatim>\<open>NaN\<close> is false.
\<close>

definition outsideOpeningHours :: "string \<Rightarrow> day_schedule \<Rightarrow> bool" where
  "outsideOpeningHours reservationTime schedule =
     (case (minutesOf reservationTime, minutesOf (ds_open schedule),
            minutesOf (ds_close schedule)) of
        (reservationMinutes, openMinutesTotal, closeMinutesTotal) \<Rightarrow>
          (case (reservationMinutes, openMinutesTotal) of
             (Some r, Some op) \<Rightarrow> r < op
           | _ \<Rightarrow> False)
          \<or> (case (reservationMinutes, closeMinutesTotal) of
                (Some r, Some cl) \<Rightarrow> int r > int cl - 120
              | _ \<Rightarrow> False))"

text \<open>\<^verbatim>\<open>// Crear o encontrar cliente\<close> of \<^verbatim>\<open>reservation.create\<close>.\<close>

definition resolveReservationCustomer ::
  "string \<Rightarrow> string \<Rightarrow> 'n store \<Rightarrow> customer \<times> 'n store" where
  "resolveReservationCustomer customerPhone customerName s =
     (case find (\<lambda>c. cu_phone c = customerPhone) (customers s) of
        None \<Rightarrow>
          let customer =
            \<lparr>cu_id = nextId s, cu_phone = customerPhone, cu_name = customerName,
              cu_email = None, cu_addresses = []\<rparr>
          in (customer, s\<lparr>customers := customers s @ [customer], nextId := Suc (nextId s)\<rparr>)
      | Some customer \<Rightarrow> (customer, s))"

text \<open>
  Modelled from the spec: the column default of the status of a Reservation row (the
  Prisma schema is not among the sources). The spec (4.5, step 6): the reservation is
  persisted with status \<open>PENDING\<close>.
\<close>

definition defaultReservationStatus :: reservation_status where
  "defaultReservationStatus = R_PENDING"

definition reservation_create_handler ::
  "create_reservation_input \<Rightarrow> 'n store \<Rightarrow> (error + reservation) \<times> 'n store" where
  "reservation_create_handler input s =
     (case activeConfig s of
        None \<Rightarrow> (Inl NOT_FOUND, s)
      | Some config \<Rightarrow>
          if \<not> svc_reservations (cfg_services config) then (Inl FORBIDDEN, s)
          else
            (case daySchedule config (cr_reservationDate input) of
               None \<Rightarrow> (Inl BAD_REQUEST, s)
             | Some schedule \<Rightarrow>
                 if ds_is_closed schedule then (Inl BAD_REQUEST, s)
                 else if outsideOpeningHours (cr_reservationTime input) schedule
                 then (Inl BAD_REQUEST, s)
                 else
                   (case resolveReservationCustomer (cr_customerPhone input)
                           (cr_customerName input) s of
                      (customer, s1) \<Rightarrow>
                        let reservation =
                          \<lparr>res_id = nextId s1,
                            res_customerId = cu_id customer,
                            res_customerName = cr_customerName input,
                            res_customerPhone = cr_customerPhone input,
                            res_reservationDate = cr_reservationDate input,
                            res_reservationTime = cr_reservationTime input @ '':00'',
                            res_partySize = cr_partySize input,
                            res_status = defaultReservationStatus,
                            res_tablePreferences = cr_tablePreferences input,
                            res_specialRequests = cr_specialRequests input,
                            res_notes = None\<rparr>
                        in (Inr reservation,
                            s1\<lparr>reservations := reservations s1 @ [reservation],
                               nextId := Suc (nextId s1)\<rparr>))))"

text \<open>\<^verbatim>\<open>create: publicProcedure.input(createReservationSchema).mutation(...)\<close>\<close>

definition reservation_create ::
  "create_reservation_input \<Rightarrow> int \<Rightarrow> ('n store, reservation) procedure" where
  "reservation_create input today =
     publicProcedure
       (inputSchema (createReservationSchema today input)
          (\<lambda>ctx. reservation_create_handler input))"

subsection \<open>Reservation workflow: \<^verbatim>\<open>reservation.getAvailableTimes\<close>\<close>

text \<open>
  The input of \<^verbatim>\<open>reservation.getAvailableTimes\<close>, with the \<^verbatim>\<open>Date\<close> that
  \<^verbatim>\<open>new Date(date)\<close> builds, and \<^verbatim>\<open>getAvailableTimesSchema\<close>: a party of at least
  one.
\<close>

record get_available_times_input =
  ga_date :: jsdate
  ga_partySize :: int

definition getAvailableTimesSchema :: "get_available_times_input \<Rightarrow> bool" where
  "getAvailableTimesSchema input \<longleftrightarrow> 1 \<le> ga_partySize input"

text \<open>
  The messages of the result stand for the Spanish texts of the source
  (\<^verbatim>\<open>'Restaurante no configurado'\<close>, \<^verbatim>\<open>'Reservas no disponibles'\<close>,
  \<^verbatim>\<open>'Restaurante cerrado este dia'\<close>,
  \<^verbatim>\<open>'No hay horarios disponibles para este dia'\<close>).
\<close>

datatype times_message =
  NotConfigured | ReservationsUnavailable | ClosedThisDay | NoTimesAvailable

record available_times =
  availableTimes :: "string list"
  message :: "times_message option"

text \<open>The template string of a slot, from the minutes since midnight.\<close>

definition timeString :: "nat \<Rightarrow> string" where
  "timeString currentMinutes =
     (let hours = currentMinutes div 60; minutes = currentMinutes mod 60
      in padStart2 (toString hours) @ '':'' @ padStart2 (toString minutes))"

text \<open>
  \<^verbatim>\<open>while (currentMinutes <= closeMinutesTotal)\<close>: one slot every 30 minutes. The
  state is \<^verbatim>\<open>currentMinutes\<close> and \<^verbatim>\<open>slots\<close>.
\<close>

function generateSlots :: "nat \<Rightarrow> int \<Rightarrow> string list \<Rightarrow> string list" where
  "generateSlots currentMinutes closeMinutesTotal slots =
     (if int currentMinutes \<le> closeMinutesTotal
      then generateSlots (currentMinutes + 30) closeMinutesTotal
             (slots @ [timeString currentMinutes])
      else slots)"
  by pat_completeness auto
termination
  by (relation "measure (\<lambda>(currentMinutes, closeMinutesTotal, slots).
        nat (closeMinutesTotal + 1 - int currentMinutes))") auto

text \<open>
  The slots of a day. When the opening time does not parse, the loop condition
  compares \<^verbatim>\<open>NaN\<close> and is false at once; so it is when the closing time does not.
\<close>

definition slotsOf :: "day_schedule \<Rightarrow> string list" where
  "slotsOf schedule =
     (case (minutesOf (ds_open schedule), minutesOf (ds_close schedule)) of
        (Some currentMinutes, Some closeMinutes) \<Rightarrow>
          generateSlots currentMinutes (int closeMinutes - 120) []
      | _ \<Rightarrow> [])"

text \<open>
  \<^verbatim>\<open>existingReservations.reduce(...)\<close>: the number of reservations under each key
  \<^verbatim>\<open>res.reservationTime.toString().slice(0, 5)\<close>.
\<close>

definition countReservation :: "(string \<rightharpoonup> nat) \<Rightarrow> reservation \<Rightarrow> (string \<rightharpoonup> nat)" where
  "countReservation acc res =
     (let timeKey = take 5 (res_reservationTime res)
      in acc(timeKey \<mapsto> (case acc timeKey of None \<Rightarrow> 0 | Some n \<Rightarrow> n) + 1))"

definition reservationCounts :: "reservation list \<Rightarrow> (string \<rightharpoonup> nat)" where
  "reservationCounts existingReservations = foldl countReservation Map.empty existingReservations"

text \<open>
  \<^verbatim>\<open>prisma.reservation.findMany\<close> of the handler: the reservations of that date whose
  status is \<open>PENDING\<close>, \<open>CONFIRMED\<close> or \<open>SEATED\<close>.
\<close>

definition existingReservations :: "jsdate \<Rightarrow> 'n store \<Rightarrow> reservation list" where
  "existingReservations selectedDate s =
     filter (\<lambda>res. res_reservationDate res = selectedDate
                    \<and> res_status res \<in> set [R_PENDING, R_CONFIRMED, R_SEATED])
       (reservations s)"

text \<open>
  The handler. The ORM rejects an invalid \<^verbatim>\<open>Date\<close> in the filter of
  \<^verbatim>\<open>findMany\<close>, which the caller sees as \<open>INTERNAL_SERVER_ERROR\<close>.
\<close>

definition reservation_getAvailableTimes_handler ::
  "get_available_times_input \<Rightarrow> 'n store \<Rightarrow> (error + available_times) \<times> 'n store" where
  "reservation_getAvailableTimes_handler input s =
     (case activeConfig s of
        None \<Rightarrow> (Inr \<lparr>availableTimes = [], message = Some NotConfigured\<rparr>, s)
      | Some config \<Rightarrow>
          if \<not> svc_reservations (cfg_services config)
          then (Inr \<lparr>availableTimes = [], message = Some ReservationsUnavailable\<rparr>, s)
          else
            (case daySchedule config (ga_date input) of
               None \<Rightarrow> (Inr \<lparr>availableTimes = [], message = Some ClosedThisDay\<rparr>, s)
             | Some schedule \<Rightarrow>
                 if ds_is_closed schedule
                 then (Inr \<lparr>availableTimes = [], message = Some ClosedThisDay\<rparr>, s)
                 else
                   let slots = slotsOf schedule in
                   if ga_date input = InvalidDate then (Inl INTERNAL_SERVER_ERROR, s)
                   else
                     let counts = reservationCounts (existingReservations (ga_date input) s);
                         available =
                           filter (\<lambda>time. (case counts time of None \<Rightarrow> 0 | Some n \<Rightarrow> n) < 3)
                             slots
                     in (Inr \<lparr>availableTimes = available,
                               message =
                                 (if length available > 0 then None
                                  else Some NoTimesAvailable)\<rparr>, s)))"

text \<open>\<^verbatim>\<open>getAvailableTimes: publicProcedure.input(getAvailableTimesSchema).query(...)\<close>\<close>

definition reservation_getAvailableTimes ::
  "get_available_times_input \<Rightarrow> ('n store, available_times) procedure" where
  "reservation_getAvailableTimes input =
     publicProcedure
       (inputSchema (getAvailableTimesSchema input)
          (\<lambda>ctx. reservation_getAvailableTimes_handler input))"

subsection \<open>Reservation workflow: staff updates and \<^verbatim>\<open>reservation.cancel\<close>\<close>

record update_reservation_input =
  ur_id :: ident
  ur_status :: "reservation_status option"
  ur_notes :: "string option"
  ur_tablePreferences :: "string option"
  ur_specialRequests :: "string option"

text \<open>
  \<^verbatim>\<open>updateReservationSchema\<close>: an identifier, an optional status of the enumeration
  and optional strings, which is what the input record is.
\<close>

definition updateReservationSchema :: "update_reservation_input \<Rightarrow> bool" where
  "updateReservationSchema input \<longleftrightarrow> True"

text \<open>
  \<^verbatim>\<open>reservation.update\<close>: the fields present in the input are written, the others
  are left as they are.
\<close>

definition reservationUpdateData :: "update_reservation_input \<Rightarrow> reservation \<Rightarrow> reservation" where
  "reservationUpdateData input row =
     row\<lparr>res_status := (case ur_status input of None \<Rightarrow> res_status row | Some st \<Rightarrow> st),
         res_notes := (case ur_notes input of None \<Rightarrow> res_notes row | Some n \<Rightarrow> Some n),
         res_tablePreferences :=
           (case ur_tablePreferences input of
              None \<Rightarrow> res_tablePreferences row | Some p \<Rightarrow> Some p),
         res_specialRequests :=
           (case ur_specialRequests input of
              None \<Rightarrow> res_specialRequests row | Some r \<Rightarrow> Some r)\<rparr>"

definition reservation_update_handler ::
  "update_reservation_input \<Rightarrow> 'n store \<Rightarrow> (error + reservation) \<times> 'n store" where
  "reservation_update_handler input s =
     (case updateFirst (\<lambda>row. res_id row = ur_id input) (reservationUpdateData input)
             (reservations s) of
        None \<Rightarrow> (Inl INTERNAL_SERVER_ERROR, s)
      | Some (reservation, rows) \<Rightarrow> (Inr reservation, s\<lparr>reservations := rows\<rparr>))"

definition reservation_update ::
  "update_reservation_input \<Rightarrow> ('n store, reservation) procedure" where
  "reservation_update input =
     staffProcedure
       (inputSchema (updateReservationSchema input)
          (\<lambda>ctx. reservation_update_handler input))"

record cancel_input =
  ca_id :: ident
  ca_phone :: "string option"

text \<open>
  The schema of \<^verbatim>\<open>reservation.cancel\<close>: an identifier and an optional string, which
  is what the input record is.
\<close>

definition cancelSchema :: "cancel_input \<Rightarrow> bool" where
  "cancelSchema input \<longleftrightarrow> True"

text \<open>
  \<^verbatim>\<open>reservation.cancel\<close>, a public procedure. The ownership check runs under
  \<^verbatim>\<open>if (!ctx.user && phone)\<close>; the update to \<open>CANCELLED\<close> follows in every case
  that did not throw.
\<close>

definition reservation_cancel_handler ::
  "cancel_input \<Rightarrow> trpc_context \<Rightarrow> 'n store \<Rightarrow> (error + reservation) \<times> 'n store" where
  "reservation_cancel_handler input ctx s =
     (let forbidden =
        (if ctx_user ctx = None \<and> \<not> falsy (ca_phone input) then
           (case find (\<lambda>row. res_id row = ca_id input) (reservations s) of
              None \<Rightarrow> True
            | Some reservation \<Rightarrow> Some (res_customerPhone reservation) \<noteq> ca_phone input)
         else False)
      in
      if forbidden then (Inl FORBIDDEN, s)
      else
        (case updateFirst (\<lambda>row. res_id row = ca_id input)
                (\<lambda>row. row\<lparr>res_status := R_CANCELLED\<rparr>) (reservations s) of
           None \<Rightarrow> (Inl INTERNAL_SERVER_ERROR, s)
         | Some (reservation, rows) \<Rightarrow> (Inr reservation, s\<lparr>reservations := rows\<rparr>)))"

definition reservation_cancel :: "cancel_input \<Rightarrow> ('n store, reservation) procedure" where
  "reservation_cancel input =
     publicProcedure (inputSchema (cancelSchema input) (reservation_cancel_handler input))"

subsection \<open>Sequences of calls\<close>

text \<open>The mutations of the order router, each with its input.\<close>

datatype 'n order_call =
  Create create_order_input string
  | UpdateStatus update_status_input timestamp
  | ConfirmPayment "'n confirm_payment_input"

fun performOrderCall :: "'n platform \<Rightarrow> 'n order_call \<Rightarrow> ('n store, 'n order) procedure" where
  "performOrderCall J (Create input orderNumber) = order_create J input orderNumber"
| "performOrderCall J (UpdateStatus input now) = order_updateStatus input now"
| "performOrderCall J (ConfirmPayment input) = order_confirmPayment J input"

text \<open>The database after a sequence of requests, each with its own context.\<close>

fun runOrderCalls ::
  "'n platform \<Rightarrow> (trpc_context \<times> 'n order_call) list \<Rightarrow> 'n store \<Rightarrow> 'n store" where
  "runOrderCalls J [] s = s"
| "runOrderCalls J ((ctx, call) # calls) s =
     runOrderCalls J calls (snd (performOrderCall J call ctx s))"

text \<open>
  The invariant of the Order row, in the words of the specification, with the sum
  taken from left to right in the arithmetic of the program.
\<close>

definition orderTotalOK :: "'n platform \<Rightarrow> 'n order \<Rightarrow> bool" where
  "orderTotalOK J ord \<longleftrightarrow>
     ord_total ord =
       js_sub J
         (js_add J
            (js_add J (js_add J (ord_subtotal ord) (ord_taxAmount ord)) (ord_deliveryFee ord))
            (ord_tipAmount ord))
         (ord_discountAmount ord)"

text \<open>
  The calls of the reservation router that write, and the database after a sequence
  of them. A reservation is made on a day, \<open>today\<close>.
\<close>

datatype reservation_call =
  ReservationCreate create_reservation_input int
  | ReservationUpdate update_reservation_input
  | ReservationCancel cancel_input



text \<open>
  The two calls that resolve or create a customer, the phone number each carries, and
  the database after a sequence of them.
\<close>

datatype customer_call =
  ViaOrder create_order_input string
  | ViaReservation create_reservation_input int

fun phoneOf :: "customer_call \<Rightarrow> string" where
  "phoneOf (ViaOrder input orderNumber) = ci_phone (co_customerInfo input)"
| "phoneOf (ViaReservation input today) = cr_customerPhone input"

fun performCustomerCall :: "'n platform \<Rightarrow> customer_call \<Rightarrow> ('n store, unit) procedure" where
  "performCustomerCall J (ViaOrder input orderNumber) ctx s =
     (case order_create J input orderNumber ctx s of
        (Inl e, s') \<Rightarrow> (Inl e, s')
      | (Inr order, s') \<Rightarrow> (Inr (), s'))"
| "performCustomerCall J (ViaReservation input today) ctx s =
     (case reservation_create input today ctx s of
        (Inl e, s') \<Rightarrow> (Inl e, s')
      | (Inr reservation, s') \<Rightarrow> (Inr (), s'))"

fun runCustomerCalls ::
  "'n platform \<Rightarrow> (trpc_context \<times> customer_call) list \<Rightarrow> 'n store \<Rightarrow> 'n store" where
  "runCustomerCalls J [] s = s"
| "runCustomerCalls J ((ctx, call) # calls) s =
     runCustomerCalls J calls (snd (performCustomerCall J call ctx s))"

subsection \<open>The specification's own words\<close>

text \<open>
  The unit price as the specification words it: the base price plus the price
  adjustments of those requested modifiers whose id is among the item's modifiers,
  added one after the other in the order of the request.
\<close>

definition spec_unitPrice :: "'n platform \<Rightarrow> 'n menu_item \<Rightarrow> order_item_input \<Rightarrow> 'n" where
  "spec_unitPrice J menuItem item =
     foldl (js_add J) (mi_price menuItem)
       (map (\<lambda>md. mod_priceAdjustment
                    (the (find (\<lambda>m. mod_id m = in_modifierId md) (mi_modifiers menuItem))))
          (filter (\<lambda>md. in_modifierId md \<in> mod_id ` set (mi_modifiers menuItem))
             (case in_modifiers item of None \<Rightarrow> [] | Some mods \<Rightarrow> mods)))"

text \<open>
  A persisted line agrees with the request: the menu item exists and is available, the
  unit price is the specification's, the line total is unit price times quantity.
\<close>

definition spec_line ::
  "'n platform \<Rightarrow> 'n menu_item list \<Rightarrow> order_item_input \<Rightarrow> 'n order_item \<Rightarrow> bool" where
  "spec_line J menu item line =
     (case find (\<lambda>m. mi_id m = in_menuItemId item) menu of
        None \<Rightarrow> False
      | Some menuItem \<Rightarrow>
          mi_isAvailable menuItem
          \<and> oi_menuItemId line = in_menuItemId item
          \<and> oi_quantity line = in_quantity item
          \<and> oi_unitPrice line = spec_unitPrice J menuItem item
          \<and> oi_totalPrice line
              = js_mul J (oi_unitPrice line) (js_num J (of_int (in_quantity item))))"

text \<open>
  The subtotal as the specification words it: the sum of the line totals, added one
  after the other to 0.
\<close>

definition spec_subtotal :: "'n platform \<Rightarrow> 'n order_item list \<Rightarrow> 'n" where
  "spec_subtotal J lines = foldl (js_add J) (js_num J 0) (map oi_totalPrice lines)"





text \<open>
  The Customer table is well formed: no two rows with the same phone, no two rows with
  the same identifier, every identifier below the counter they are drawn from.
\<close>

definition customersWF :: "'n store \<Rightarrow> bool" where
  "customersWF s \<longleftrightarrow>
     distinct (map cu_phone (customers s)) \<and> distinct (map cu_id (customers s))
     \<and> list_all (\<lambda>c. cu_id c < nextId s) (customers s)"

text \<open>
  What a call with the phone number \<open>phone\<close> may do to an existing row: identifier,
  phone and addresses stay, a name or an email that is not empty stays, and a row of
  another phone number stays as it is.
\<close>

definition backfilled :: "string \<Rightarrow> customer \<Rightarrow> customer \<Rightarrow> bool" where
  "backfilled phone old new \<longleftrightarrow>
     cu_id new = cu_id old \<and> cu_phone new = cu_phone old
     \<and> cu_addresses new = cu_addresses old
     \<and> (cu_name old \<noteq> [] \<longrightarrow> cu_name new = cu_name old)
     \<and> (\<not> falsy (cu_email old) \<longrightarrow> cu_email new = cu_email old)
     \<and> (cu_phone old \<noteq> phone \<longrightarrow> new = old)"

subsection \<open>Example data\<close>

text \<open>
  The platform of the examples: numbers are rationals with exact arithmetic. That is
  the arithmetic of doubles wherever the operands and the exact result are doubles, as
  for the integer prices, quantities, subtotals and fees below; the tax of an example
  (16 percent of its subtotal) is the exact amount, where a double holds the nearest
  one. 0 is the only number that is not truthy; an email is a string with an at sign.
\<close>

definition exPlatform :: "rat platform" where
  "exPlatform =
     \<lparr>js_num = (\<lambda>q. q), js_add = (\<lambda>a b. a + b), js_sub = (\<lambda>a b. a - b),
      js_mul = (\<lambda>a b. a * b), js_lt = (\<lambda>a b. a < b), js_le = (\<lambda>a b. a \<le> b),
      js_truthy = (\<lambda>a. a \<noteq> 0), zod_email = (\<lambda>str. CHR ''@'' \<in> set str)\<rparr>"

text \<open>
  The menu of the examples: item 1 costs 85 and has the modifier 7 (+10); item 2 costs
  60 and is not available. Item 1 is the guacamole of \<^verbatim>\<open>prisma/seed.ts\<close>.
\<close>

definition exMenu :: "rat menu_item list" where
  "exMenu =
     [\<lparr>mi_id = 1, mi_name = ''Guacamole Tradicional'', mi_price = 85, mi_isAvailable = True,
       mi_modifiers = [\<lparr>mod_id = 7, mod_name = ''Extra'', mod_priceAdjustment = 10\<rparr>]\<rparr>,
      \<lparr>mi_id = 2, mi_name = ''Flan'', mi_price = 60, mi_isAvailable = False,
       mi_modifiers = []\<rparr>]"

text \<open>Two units of item 1, with modifier 7 and the unknown modifier 99.\<close>

definition exItems :: "order_item_input list" where
  "exItems =
     [\<lparr>in_menuItemId = 1, in_quantity = 2, in_specialInstructions = None,
       in_modifiers =
         Some [\<lparr>in_modifierId = 7, in_selectedOptions = None\<rparr>,
               \<lparr>in_modifierId = 99, in_selectedOptions = None\<rparr>]\<rparr>]"

definition exLines :: "rat order_item list" where
  "exLines =
     [\<lparr>oi_menuItemId = 1, oi_quantity = 2, oi_unitPrice = 95, oi_totalPrice = 190,
       oi_specialInstructions = None,
       oi_modifiers =
         Some [\<lparr>am_id = 7, am_name = ''Extra'', am_priceAdjustment = 10,
                am_selectedOptions = None\<rparr>]\<rparr>]"

text \<open>
  The configuration of \<^verbatim>\<open>prisma/seed.ts\<close>: open 09:00 to 22:00 on Monday, all
  services on, delivery fee 25 and minimum order 150; three of its days, with
  Wednesday closed here.
\<close>

definition exConfig :: "rat restaurant_config" where
  "exConfig =
     \<lparr>cfg_isActive = True,
      cfg_openingHours =
        [(''monday'', \<lparr>ds_open = ''09:00'', ds_close = ''22:00'', ds_is_closed = False\<rparr>),
         (''tuesday'', \<lparr>ds_open = ''09:00'', ds_close = ''22:00'', ds_is_closed = False\<rparr>),
         (''wednesday'', \<lparr>ds_open = ''09:00'', ds_close = ''22:00'', ds_is_closed = True\<rparr>)],
      cfg_services =
        \<lparr>svc_dine_in = True, svc_takeout = True, svc_delivery = True,
         svc_reservations = True\<rparr>,
      cfg_deliveryConfig =
        Some \<lparr>dc_fee = Some 25, dc_minimum_order = Some 150,
              dc_is_free_over_amount = None\<rparr>\<rparr>"

definition exStore :: "rat store" where
  "exStore =
     \<lparr>menuItems = exMenu, restaurantConfigs = [exConfig], customers = [], orders = [],
      reservations = [], nextId = 0\<rparr>"

definition exOrderInput :: "order_type \<Rightarrow> create_order_input" where
  "exOrderInput orderType =
     \<lparr>co_orderType = orderType, co_items = exItems,
      co_customerInfo =
        \<lparr>ci_name = ''Ana Ruiz'', ci_phone = ''5512345678'', ci_email = None\<rparr>,
      co_deliveryAddress = None, co_tableNumber = None, co_specialInstructions = None,
      co_paymentMethod = PAY_cash\<rparr>"

definition exStaff :: "string \<Rightarrow> trpc_context" where
  "exStaff role =
     \<lparr>ctx_user = Some \<lparr>user_id = 1, user_email = ''staff@restaurant.com'', user_role = role\<rparr>\<rparr>"

definition exAnonymous :: trpc_context where
  "exAnonymous = \<lparr>ctx_user = None\<rparr>"

text \<open>
  A takeout order of \<open>exItems\<close> by a new customer, then a payment with a tip of 20,
  then the kitchen marks it ready.
\<close>

definition exCustomer :: customer where
  "exCustomer =
     \<lparr>cu_id = 0, cu_phone = ''5512345678'', cu_name = ''Ana Ruiz'', cu_email = None,
      cu_addresses = []\<rparr>"

definition exOrder :: "order_type \<Rightarrow> rat order" where
  "exOrder orderType =
     \<lparr>ord_id = 1, ord_orderNumber = ''ORD-1'', ord_customerId = 0,
      ord_orderType = orderType, ord_status = PENDING, ord_subtotal = 190,
      ord_taxAmount = 152 / 5, ord_deliveryFee = 0, ord_tipAmount = 0,
      ord_discountAmount = 0, ord_total = 1102 / 5,
      ord_paymentStatus = None, ord_paymentReference = None,
      ord_paymentMethod = PAY_cash, ord_customerName = ''Ana Ruiz'',
      ord_customerPhone = ''5512345678'', ord_deliveryAddress = None,
      ord_tableNumber = None, ord_specialInstructions = None,
      ord_orderItems = exLines,
      ord_readyAt = None, ord_deliveredAt = None, ord_estimatedReadyTime = None\<rparr>"

definition exPayment :: "rat confirm_payment_input" where
  "exPayment = \<lparr>cp_id = 1, cp_paymentReference = None, cp_tipAmount = Some 20\<rparr>"

definition exPaid :: "rat order" where
  "exPaid =
     (exOrder TAKEOUT)\<lparr>ord_paymentStatus := Some ''PAID'', ord_tipAmount := 20,
       ord_total := 1202 / 5\<rparr>"

definition exCalls :: "(trpc_context \<times> rat order_call) list" where
  "exCalls =
     [(exAnonymous, Create (exOrderInput TAKEOUT) ''ORD-1''),
      (exStaff ''CASHIER'', ConfirmPayment exPayment),
      (exStaff ''KITCHEN'',
        UpdateStatus \<lparr>us_id = 1, us_status = READY, us_estimatedReadyTime = None\<rparr> 1000)]"

text \<open>A delivery order of one unit of item 1: subtotal 85, below the minimum of 150.\<close>

definition exSmallOrder :: create_order_input where
  "exSmallOrder =
     (exOrderInput DELIVERY)\<lparr>co_items :=
        [\<lparr>in_menuItemId = 1, in_quantity = 1, in_specialInstructions = None,
          in_modifiers = None\<rparr>]\<rparr>"

text \<open>
  Monday 6 January 2025 and Wednesday 8 January 2025 (midnight UTC), the day of the
  requests, Wednesday 1 January 2025, and a request for a table for four.
\<close>

definition exToday :: int where
  "exToday = 1735689600000"

definition exMonday :: jsdate where
  "exMonday = Date 1736121600000"

definition exWednesday :: jsdate where
  "exWednesday = Date 1736294400000"

definition exReservation :: "jsdate \<Rightarrow> string \<Rightarrow> create_reservation_input" where
  "exReservation date time =
     \<lparr>cr_customerName = ''Ana Ruiz'', cr_customerPhone = ''5512345678'',
      cr_reservationDate = date, cr_reservationTime = time, cr_partySize = 4,
      cr_tablePreferences = None, cr_specialRequests = None\<rparr>"

text \<open>The row that request leaves, with its identifier and status.\<close>

definition exReservationRow ::
  "ident \<Rightarrow> jsdate \<Rightarrow> string \<Rightarrow> reservation_status \<Rightarrow> reservation" where
  "exReservationRow i date time status =
     \<lparr>res_id = i, res_customerId = 0, res_customerName = ''Ana Ruiz'',
      res_customerPhone = ''5512345678'', res_reservationDate = date,
      res_reservationTime = time, res_partySize = 4, res_status = status,
      res_tablePreferences = None, res_specialRequests = None, res_notes = None\<rparr>"

text \<open>The example database with the reservation service switched off.\<close>

definition exNoReservations :: "rat store" where
  "exNoReservations =
     exStore\<lparr>restaurantConfigs :=
       [exConfig\<lparr>cfg_services := (cfg_services exConfig)\<lparr>svc_reservations := False\<rparr>\<rparr>]\<rparr>"

text \<open>
  A Monday with six reservations: at 12:00 two completed ones and a no-show, at 12:30
  a pending, a confirmed and a seated one. \<open>exCompletedCalls\<close> are requests that
  lead there from \<open>exStore\<close>; \<open>exAvailable\<close> are the slots of that Monday except
  12:30.
\<close>

definition exCompleted :: "rat store" where
  "exCompleted =
     exStore\<lparr>customers := [exCustomer],
       reservations :=
         [exReservationRow 1 exMonday ''12:00:00'' R_COMPLETED,
          exReservationRow 2 exMonday ''12:00:00'' R_COMPLETED,
          exReservationRow 3 exMonday ''12:00:00'' R_NO_SHOW,
          exReservationRow 4 exMonday ''12:30:00'' R_PENDING,
          exReservationRow 5 exMonday ''12:30:00'' R_CONFIRMED,
          exReservationRow 6 exMonday ''12:30:00'' R_SEATED],
       nextId := 7\<rparr>"

definition exStatusUpdate :: "ident \<Rightarrow> reservation_status \<Rightarrow> reservation_call" where
  "exStatusUpdate i status =
     ReservationUpdate
       \<lparr>ur_id = i, ur_status = Some status, ur_notes = None, ur_tablePreferences = None,
        ur_specialRequests = None\<rparr>"

definition exCompletedCalls :: "(trpc_context \<times> reservation_call) list" where
  "exCompletedCalls =
     [(exAnonymous, ReservationCreate (exReservation exMonday ''12:00'') exToday),
      (exAnonymous, ReservationCreate (exReservation exMonday ''12:00'') exToday),
      (exAnonymous, ReservationCreate (exReservation exMonday ''12:00'') exToday),
      (exAnonymous, ReservationCreate (exReservation exMonday ''12:30'') exToday),
      (exAnonymous, ReservationCreate (exReservation exMonday ''12:30'') exToday),
      (exAnonymous, ReservationCreate (exReservation exMonday ''12:30'') exToday),
      (exStaff ''WAITER'', exStatusUpdate 1 R_COMPLETED),
      (exStaff ''WAITER'', exStatusUpdate 2 R_COMPLETED),
      (exStaff ''WAITER'', exStatusUpdate 3 R_NO_SHOW),
      (exStaff ''WAITER'', exStatusUpdate 5 R_CONFIRMED),
      (exStaff ''WAITER'', exStatusUpdate 6 R_SEATED)]"

definition exAvailable :: available_times where
  "exAvailable =
     \<lparr>availableTimes =
        [''09:00'', ''09:30'', ''10:00'', ''10:30'', ''11:00'', ''11:30'', ''12:00'',
         ''13:00'', ''13:30'', ''14:00'', ''14:30'', ''15:00'', ''15:30'', ''16:00'',
         ''16:30'', ''17:00'', ''17:30'', ''18:00'', ''18:30'', ''19:00'', ''19:30'',
         ''20:00''],
      message = None\<rparr>"

definition exTimesInput :: get_available_times_input where
  "exTimesInput = \<lparr>ga_date = exMonday, ga_partySize = 2\<rparr>"

text \<open>
  A reservation by a new customer, then two orders under the same phone number: the
  first brings an email, the second another name and another email.
\<close>

definition exOrderWith :: "string \<Rightarrow> string \<Rightarrow> create_order_input" where
  "exOrderWith name email =
     (exOrderInput TAKEOUT)\<lparr>co_customerInfo :=
        \<lparr>ci_name = name, ci_phone = ''5512345678'', ci_email = Some email\<rparr>\<rparr>"

definition exCustomerCalls :: "(trpc_context \<times> customer_call) list" where
  "exCustomerCalls =
     [(exAnonymous, ViaReservation (exReservation exMonday ''19:30'') exToday),
      (exAnonymous, ViaOrder (exOrderWith ''Ana Ruiz'' ''ana@ruiz.mx'') ''ORD-1''),
      (exAnonymous, ViaOrder (exOrderWith ''Otra Persona'' ''otra@ruiz.mx'') ''ORD-2'')]"

text \<open>The example database after the reservation of 19:30 on Monday.\<close>

definition exReserved :: "rat store" where
  "exReserved =
     exStore\<lparr>customers := [exCustomer],
       reservations := [exReservationRow 1 exMonday ''19:30:00'' R_PENDING],
       nextId := 2\<rparr>"

text \<open>
  Three pending reservations requested as 9:30 on the Monday, which the regular
  expression of the schema accepts, and the requests that make them.
\<close>

definition exOneDigit :: "rat store" where
  "exOneDigit =
     exStore\<lparr>customers := [exCustomer],
       reservations :=
         [exReservationRow 1 exMonday ''9:30:00'' R_PENDING,
          exReservationRow 2 exMonday ''9:30:00'' R_PENDING,
          exReservationRow 3 exMonday ''9:30:00'' R_PENDING],
       nextId := 4\<rparr>"

definition exOneDigitCalls :: "(trpc_context \<times> reservation_call) list" where
  "exOneDigitCalls =
     [(exAnonymous, ReservationCreate (exReservation exMonday ''9:30'') exToday),
      (exAnonymous, ReservationCreate (exReservation exMonday ''9:30'') exToday),
      (exAnonymous, ReservationCreate (exReservation exMonday ''9:30'') exToday)]"

section \<open>Properties\<close>

lemmas platform_defs =
  exPlatform_def js_gt_def js_ge_def

lemmas handler_defs =
  publicProcedure_def staffProcedure_def requireRole_def inputSchema_def
  orderItemSchema_def createOrderSchema_def updateOrderStatusSchema_def
  confirmPaymentSchema_def
  order_create_def order_create_handler_def activeConfig_def computeDeliveryFee_def
  calculateOrderTotal_def resolveOrderCustomer_def defaultTipAmount_def
  defaultDiscountAmount_def defaultOrderStatus_def falsy_def
  order_updateStatus_def order_updateStatus_handler_def statusUpdateData_def
  order_confirmPayment_def order_confirmPayment_handler_def tipTotals_def
  paymentUpdateData_def

lemmas reservation_defs =
  createReservationSchema_def timeFormat_def
  reservation_create_def reservation_create_handler_def daySchedule_def dayOfWeek_def
  getDay_def dayNames_def outsideOpeningHours_def minutesOf_def Number_def isDigit_def
  digitValue_def resolveReservationCustomer_def defaultReservationStatus_def

lemmas times_defs =
  getAvailableTimesSchema_def updateReservationSchema_def cancelSchema_def
  reservation_getAvailableTimes_def reservation_getAvailableTimes_handler_def slotsOf_def
  timeString_def padStart2_def digitChar_def reservationCounts_def countReservation_def
  existingReservations_def reservation_update_def reservation_update_handler_def
  reservationUpdateData_def reservation_cancel_def reservation_cancel_handler_def

lemmas example_defs =
  exMenu_def exItems_def exLines_def exConfig_def exStore_def exOrderInput_def
  exStaff_def exAnonymous_def exCustomer_def exOrder_def exPayment_def exPaid_def
  exCalls_def exSmallOrder_def exMonday_def exWednesday_def exToday_def
  exReservation_def exReservationRow_def exNoReservations_def exCompleted_def
  exStatusUpdate_def exCompletedCalls_def exAvailable_def exTimesInput_def
  exOrderWith_def exCustomerCalls_def exReserved_def exOneDigit_def exOneDigitCalls_def

subsection \<open>Authorization\<close>

text \<open>
  C6. For a procedure gated by \<open>requireRole allowedRoles\<close>: without a user the call
  fails with \<open>UNAUTHORIZED\<close> and with a user whose role is not allowed it fails with
  \<open>FORBIDDEN\<close>, in both cases whatever the handler is and with the state untouched
  (the handler did not run); with an allowed role the result is the handler's. In
  particular \<open>requireRole [ADMIN]\<close> rejects a KITCHEN user with \<open>FORBIDDEN\<close> and
  runs the handler for an ADMIN user.
\<close>

theorem requireRole_gate:
  "(ctx_user ctx = None \<longrightarrow> requireRole roles next ctx s = (Inl UNAUTHORIZED, s))
   \<and> (\<forall>u. ctx_user ctx = Some u \<and> user_role u \<notin> set roles
          \<longrightarrow> requireRole roles next ctx s = (Inl FORBIDDEN, s))
   \<and> (\<forall>u. ctx_user ctx = Some u \<and> user_role u \<in> set roles
          \<longrightarrow> requireRole roles next ctx s = next ctx s)
   \<and> (\<forall>u. ctx_user ctx = Some u \<and> user_role u = ''KITCHEN''
          \<longrightarrow> adminProcedure next ctx s = (Inl FORBIDDEN, s))
   \<and> (\<forall>u. ctx_user ctx = Some u \<and> user_role u = ''ADMIN''
          \<longrightarrow> adminProcedure next ctx s = next ctx s)"
  by (auto simp: requireRole_def adminProcedure_def)

theorem requireRole_gate_witness:
  "requireRole [''ADMIN''] (\<lambda>c s. (Inr s, Suc s)) \<lparr>ctx_user = None\<rparr> (0::nat)
     = (Inl UNAUTHORIZED, 0)
   \<and> requireRole [''ADMIN'', ''KITCHEN''] (\<lambda>c s. (Inr s, Suc s))
        \<lparr>ctx_user = Some \<lparr>user_id = 1, user_email = ''w@x.mx'', user_role = ''WAITER''\<rparr>\<rparr> (0::nat)
     = (Inl FORBIDDEN, 0)
   \<and> requireRole [''ADMIN'', ''KITCHEN''] (\<lambda>c s. (Inr s, Suc s))
        \<lparr>ctx_user = Some \<lparr>user_id = 1, user_email = ''k@x.mx'', user_role = ''KITCHEN''\<rparr>\<rparr> (0::nat)
     = (Inr 0, 1)
   \<and> adminProcedure (\<lambda>c s. (Inr s, Suc s))
        \<lparr>ctx_user = Some \<lparr>user_id = 1, user_email = ''k@x.mx'', user_role = ''KITCHEN''\<rparr>\<rparr> (0::nat)
     = (Inl FORBIDDEN, 0)
   \<and> adminProcedure (\<lambda>c s. (Inr s, Suc s))
        \<lparr>ctx_user = Some \<lparr>user_id = 2, user_email = ''a@x.mx'', user_role = ''ADMIN''\<rparr>\<rparr> (0::nat)
     = (Inr 0, 1)"
  using requireRole_gate [of "\<lparr>ctx_user = None\<rparr>" "[''ADMIN'']" "\<lambda>c s. (Inr s, Suc s)" "0::nat"]
    requireRole_gate [of "\<lparr>ctx_user = Some \<lparr>user_id = 1, user_email = ''w@x.mx'', user_role = ''WAITER''\<rparr>\<rparr>"
      "[''ADMIN'', ''KITCHEN'']" "\<lambda>c s. (Inr s, Suc s)" "0::nat"]
    requireRole_gate [of "\<lparr>ctx_user = Some \<lparr>user_id = 1, user_email = ''k@x.mx'', user_role = ''KITCHEN''\<rparr>\<rparr>"
      "[''ADMIN'', ''KITCHEN'']" "\<lambda>c s. (Inr s, Suc s)" "0::nat"]
    requireRole_gate [of "\<lparr>ctx_user = Some \<lparr>user_id = 2, user_email = ''a@x.mx'', user_role = ''ADMIN''\<rparr>\<rparr>"
      "[''ADMIN'']" "\<lambda>c s. (Inr s, Suc s)" "0::nat"]
  by simp

subsection \<open>Pricing of the line items\<close>

lemma find_None_image: "find (\<lambda>m. f m = k) ms = None \<longleftrightarrow> k \<notin> f ` set ms"
  by (induction ms) auto

lemma applyModifiers_price:
  "fst (applyModifiers J ms mods (p, acc)) =
     foldl (js_add J) p
       (map (\<lambda>md. mod_priceAdjustment (the (find (\<lambda>m. mod_id m = in_modifierId md) ms)))
          (filter (\<lambda>md. in_modifierId md \<in> mod_id ` set ms) mods))"
proof (induction mods arbitrary: p acc)
  case Nil
  show ?case by simp
next
  case (Cons md mods)
  show ?case
  proof (cases "find (\<lambda>m. mod_id m = in_modifierId md) ms")
    case None
    then have "in_modifierId md \<notin> mod_id ` set ms" by (simp add: find_None_image)
    with None Cons.IH show ?thesis by simp
  next
    case (Some m)
    then have "in_modifierId md \<in> mod_id ` set ms"
      using find_None_image [of mod_id "in_modifierId md" ms] by auto
    with Some Cons.IH show ?thesis by simp
  qed
qed

lemma processItems_acc:
  "processItems J menu items (sub0, acc0) = Inr (sub, lines) \<Longrightarrow>
     \<exists>new. lines = acc0 @ new \<and> list_all2 (spec_line J menu) items new
       \<and> sub = foldl (js_add J) sub0 (map oi_totalPrice new)"
proof (induction items arbitrary: sub0 acc0)
  case Nil
  then show ?case by simp
next
  case (Cons item rest)
  from Cons.prems obtain menuItem where
    f: "find (\<lambda>m. mi_id m = in_menuItemId item) menu = Some menuItem"
    by (auto split: option.splits)
  from Cons.prems f have av: "mi_isAvailable menuItem"
    by (auto split: if_splits)
  define itemPrice where "itemPrice = spec_unitPrice J menuItem item"
  define mapp where "mapp = (case in_modifiers item of None \<Rightarrow> []
     | Some mods \<Rightarrow> snd (applyModifiers J (mi_modifiers menuItem) mods (mi_price menuItem, [])))"
  have pr: "(case in_modifiers item of
                     None \<Rightarrow> (mi_price menuItem, [])
                   | Some mods \<Rightarrow>
                       applyModifiers J (mi_modifiers menuItem) mods (mi_price menuItem, []))
        = (itemPrice, mapp)"
    unfolding itemPrice_def mapp_def spec_unitPrice_def
    by (cases "in_modifiers item") (simp_all add: prod_eq_iff applyModifiers_price)
  define line where "line = \<lparr>oi_menuItemId = in_menuItemId item,
                      oi_quantity = in_quantity item,
                      oi_unitPrice = itemPrice,
                      oi_totalPrice = js_mul J itemPrice (js_num J (of_int (in_quantity item))),
                      oi_specialInstructions = in_specialInstructions item,
                      oi_modifiers =
                        (if length mapp > 0 then Some mapp
                         else None)\<rparr>"
  from Cons.prems f av pr
  have rec: "processItems J menu rest (js_add J sub0 (oi_totalPrice line), acc0 @ [line])
      = Inr (sub, lines)"
    by (simp add: line_def Let_def)
  from Cons.IH [OF rec] obtain new where
    n: "lines = (acc0 @ [line]) @ new" "list_all2 (spec_line J menu) rest new"
       "sub = foldl (js_add J) (js_add J sub0 (oi_totalPrice line)) (map oi_totalPrice new)"
    by blast
  have sl: "spec_line J menu item line"
    unfolding spec_line_def using f av by (simp add: line_def itemPrice_def)
  from n sl show ?case
    by (intro exI [of _ "line # new"]) simp
qed

lemma processItems_ok_iff:
  "(\<exists>r. processItems J menu items acc = Inr r) \<longleftrightarrow>
     (\<forall>item \<in> set items. \<exists>menuItem.
         find (\<lambda>m. mi_id m = in_menuItemId item) menu = Some menuItem \<and> mi_isAvailable menuItem)"
proof (induction items arbitrary: acc)
  case Nil
  show ?case by simp
next
  case (Cons item rest)
  obtain sub0 acc0 where acc: "acc = (sub0, acc0)" by (cases acc)
  show ?case
  proof (cases "find (\<lambda>m. mi_id m = in_menuItemId item) menu")
    case None
    then show ?thesis by (simp add: acc)
  next
    case (Some menuItem)
    show ?thesis
    proof (cases "mi_isAvailable menuItem")
      case False
      with Some show ?thesis by (simp add: acc)
    next
      case True
      obtain itemPrice mapp where pr: "(case in_modifiers item of
                     None \<Rightarrow> (mi_price menuItem, [])
                   | Some mods \<Rightarrow>
                       applyModifiers J (mi_modifiers menuItem) mods (mi_price menuItem, []))
        = (itemPrice, mapp)"
        by (cases "(case in_modifiers item of
                     None \<Rightarrow> (mi_price menuItem, [])
                   | Some mods \<Rightarrow>
                       applyModifiers J (mi_modifiers menuItem) mods (mi_price menuItem, []))")
      define acc' where "acc' =
         (js_add J sub0 (js_mul J itemPrice (js_num J (of_int (in_quantity item)))),
                  acc0 @
                    [\<lparr>oi_menuItemId = in_menuItemId item,
                      oi_quantity = in_quantity item,
                      oi_unitPrice = itemPrice,
                      oi_totalPrice = js_mul J itemPrice (js_num J (of_int (in_quantity item))),
                      oi_specialInstructions = in_specialInstructions item,
                      oi_modifiers =
                        (if length mapp > 0 then Some mapp
                         else None)\<rparr>])"
      have "processItems J menu (item # rest) acc = processItems J menu rest acc'"
        using Some True pr by (simp add: acc Let_def acc'_def)
      with Cons.IH [of acc'] Some True show ?thesis by simp
    qed
  qed
qed

lemma inputSchema_cases:
  "inputSchema valid next ctx s = (if valid then next ctx s else (Inl BAD_REQUEST, s))"
  by (simp add: inputSchema_def)

lemma order_create_Inr:
  "order_create J input orderNumber ctx s = (Inr order, s') \<longleftrightarrow>
     createOrderSchema J input \<and> order_create_handler J input orderNumber s = (Inr order, s')"
  by (simp add: order_create_def publicProcedure_def inputSchema_def)

lemma order_create_items:
  assumes "order_create_handler J input orderNumber s = (Inr order, s')"
  shows "\<exists>subtotal. processItems J (menuItems s) (co_items input) (js_num J 0, [])
            = Inr (subtotal, ord_orderItems order)"
proof -
  from assms obtain subtotal processedItems where
    p: "processItems J (menuItems s) (co_items input) (js_num J 0, [])
          = Inr (subtotal, processedItems)"
    unfolding order_create_handler_def by (auto split: sum.splits)
  from assms p have "ord_orderItems order = processedItems"
    unfolding order_create_handler_def
    by (auto simp: Let_def split: sum.splits prod.splits)
  with p show ?thesis by auto
qed

text \<open>
  C2. In \<^verbatim>\<open>order.create\<close> every requested line is priced as the specification says:
  the unit price is the base price with the adjustments of the requested modifiers
  that exist on the item added to it, the line total is the unit price times the
  quantity, and the subtotal is the sum of the line totals, each sum taken from left
  to right in the arithmetic of the program. The loop fails only for a missing or
  unavailable menu item, never for an unknown modifier, and the lines of the created
  order are the lines of the loop.
\<close>

theorem create_line_pricing:
  "(processItems J menu items (js_num J 0, []) = Inr (subtotal, lines) \<longrightarrow>
      list_all2 (spec_line J menu) items lines \<and> subtotal = spec_subtotal J lines)
   \<and> ((\<exists>r. processItems J menu items (js_num J 0, []) = Inr r) \<longleftrightarrow>
        (\<forall>item \<in> set items. \<exists>menuItem.
            find (\<lambda>m. mi_id m = in_menuItemId item) menu = Some menuItem
            \<and> mi_isAvailable menuItem))
   \<and> (order_create J input orderNumber ctx s = (Inr order, s') \<longrightarrow>
        list_all2 (spec_line J (menuItems s)) (co_items input) (ord_orderItems order))"
proof (intro conjI impI)
  assume "processItems J menu items (js_num J 0, []) = Inr (subtotal, lines)"
  from processItems_acc [OF this]
  show "list_all2 (spec_line J menu) items lines"
    and "subtotal = spec_subtotal J lines"
    by (auto simp: spec_subtotal_def)
next
  show "(\<exists>r. processItems J menu items (js_num J 0, []) = Inr r) \<longleftrightarrow>
        (\<forall>item \<in> set items. \<exists>menuItem.
            find (\<lambda>m. mi_id m = in_menuItemId item) menu = Some menuItem
            \<and> mi_isAvailable menuItem)"
    by (rule processItems_ok_iff)
next
  assume "order_create J input orderNumber ctx s = (Inr order, s')"
  then have "order_create_handler J input orderNumber s = (Inr order, s')"
    by (simp add: order_create_Inr)
  from order_create_items [OF this] obtain sub where
    "processItems J (menuItems s) (co_items input) (js_num J 0, [])
       = Inr (sub, ord_orderItems order)" ..
  from processItems_acc [OF this]
  show "list_all2 (spec_line J (menuItems s)) (co_items input) (ord_orderItems order)"
    by auto
qed

lemma exCreate:
  "order_create exPlatform (exOrderInput TAKEOUT) ''ORD-1'' exAnonymous exStore
     = (Inr (exOrder TAKEOUT),
        exStore\<lparr>customers := [exCustomer], orders := [exOrder TAKEOUT], nextId := 2\<rparr>)"
  by (simp add: handler_defs platform_defs example_defs Let_def)

theorem create_line_pricing_witness:
  "processItems exPlatform exMenu exItems (js_num exPlatform 0, []) = Inr (190, exLines)
   \<and> list_all2 (spec_line exPlatform exMenu) exItems exLines
   \<and> (190::rat) = spec_subtotal exPlatform exLines
   \<and> order_create exPlatform (exOrderInput TAKEOUT) ''ORD-1'' exAnonymous exStore
       = (Inr (exOrder TAKEOUT),
          exStore\<lparr>customers := [exCustomer], orders := [exOrder TAKEOUT], nextId := 2\<rparr>)
   \<and> list_all2 (spec_line exPlatform (menuItems exStore)) (co_items (exOrderInput TAKEOUT))
        (ord_orderItems (exOrder TAKEOUT))
   \<and> map oi_unitPrice (ord_orderItems (exOrder TAKEOUT)) = [95]"
proof -
  have h: "processItems exPlatform exMenu exItems (js_num exPlatform 0, []) = Inr (190, exLines)"
    by (simp add: platform_defs exMenu_def exItems_def exLines_def)
  note inst = create_line_pricing
    [where J = exPlatform and menu = exMenu and items = exItems and subtotal = 190
      and lines = exLines and input = "exOrderInput TAKEOUT" and orderNumber = "''ORD-1''"
      and ctx = exAnonymous and s = exStore and order = "exOrder TAKEOUT"
      and s' = "exStore\<lparr>customers := [exCustomer], orders := [exOrder TAKEOUT], nextId := 2\<rparr>"]
  from inst [THEN conjunct1, THEN mp, OF h]
  have a: "list_all2 (spec_line exPlatform exMenu) exItems exLines
     \<and> (190::rat) = spec_subtotal exPlatform exLines" .
  from inst [THEN conjunct2, THEN conjunct2, THEN mp, OF exCreate]
  have b: "list_all2 (spec_line exPlatform (menuItems exStore)) (co_items (exOrderInput TAKEOUT))
        (ord_orderItems (exOrder TAKEOUT))" .
  have c: "map oi_unitPrice (ord_orderItems (exOrder TAKEOUT)) = [95]"
    by (simp add: exOrder_def exLines_def)
  from h a b c exCreate show ?thesis by simp
qed

subsection \<open>The total of an order\<close>

lemma updateFirst_Some:
  "updateFirst P f xs = Some (y, ys) \<Longrightarrow>
     \<exists>pre x post. xs = pre @ x # post \<and> find P xs = Some x \<and> P x
        \<and> y = f x \<and> ys = pre @ f x # post"
proof (induction xs arbitrary: y ys)
  case Nil
  then show ?case by simp
next
  case (Cons a xs)
  show ?case
  proof (cases "P a")
    case True
    with Cons.prems have "y = f a" "ys = f a # xs" by auto
    with True show ?thesis by (intro exI [of _ "[]"] exI [of _ a] exI [of _ xs]) simp
  next
    case False
    with Cons.prems obtain ys' where u: "updateFirst P f xs = Some (y, ys')" and ys: "ys = a # ys'"
      by (auto split: option.splits)
    from Cons.IH [OF u] obtain pre x post where
      "xs = pre @ x # post" "find P xs = Some x" "P x" "y = f x" "ys' = pre @ f x # post"
      by blast
    with False ys show ?thesis
      by (intro exI [of _ "a # pre"] exI [of _ x] exI [of _ post]) simp
  qed
qed

lemma updateFirst_None: "updateFirst P f xs = None \<longleftrightarrow> (\<forall>x \<in> set xs. \<not> P x)"
  by (induction xs) (auto split: option.splits)

lemma find_Some_set: "find P xs = Some x \<Longrightarrow> x \<in> set xs \<and> P x"
  by (induction xs) (auto split: if_splits)

lemma updateFirst_inv:
  assumes "updateFirst P f xs = Some (y, ys)"
    and "\<forall>x \<in> set xs. Q x"
    and "\<And>x. find P xs = Some x \<Longrightarrow> Q x \<Longrightarrow> Q (f x)"
  shows "Q y \<and> y \<in> set ys \<and> (\<forall>x \<in> set ys. Q x)"
proof -
  from updateFirst_Some [OF assms(1)] obtain pre x post where
    h: "xs = pre @ x # post" "find P xs = Some x" "y = f x" "ys = pre @ f x # post"
    by blast
  from h(1) assms(2) have "Q x" by simp
  with assms(3) h(2) have "Q (f x)" by blast
  with h assms(2) show ?thesis by auto
qed

lemma statusUpdateData_OK: "orderTotalOK J row \<Longrightarrow> orderTotalOK J (statusUpdateData input now row)"
  by (simp add: orderTotalOK_def statusUpdateData_def)

lemma paymentUpdateData_OK:
  "find (\<lambda>row. ord_id row = cp_id input) (orders s) = Some row \<Longrightarrow> orderTotalOK J row \<Longrightarrow>
     orderTotalOK J (paymentUpdateData input (tipTotals J input s) row)"
  by (simp add: orderTotalOK_def paymentUpdateData_def tipTotals_def split: option.splits)

lemma updateStatus_inv:
  assumes "\<forall>ord \<in> set (orders s). orderTotalOK J ord"
    and "order_updateStatus_handler input now s = (r, s')"
  shows "(\<forall>ord \<in> set (orders s'). orderTotalOK J ord)
    \<and> (\<forall>ord. r = Inr ord \<longrightarrow> orderTotalOK J ord \<and> ord \<in> set (orders s'))"
proof (cases "updateFirst (\<lambda>row. ord_id row = us_id input) (statusUpdateData input now) (orders s)")
  case None
  with assms show ?thesis by (auto simp add: order_updateStatus_handler_def)
next
  case (Some p)
  obtain y ys where p: "p = (y, ys)" by (cases p)
  from updateFirst_inv [OF Some [unfolded p], of "orderTotalOK J"] assms(1)
  have "orderTotalOK J y \<and> y \<in> set ys \<and> (\<forall>x \<in> set ys. orderTotalOK J x)"
    by (simp add: statusUpdateData_OK)
  with Some p assms(2) show ?thesis by (auto simp add: order_updateStatus_handler_def)
qed

lemma confirmPayment_inv:
  assumes "\<forall>ord \<in> set (orders s). orderTotalOK J ord"
    and "order_confirmPayment_handler J input s = (r, s')"
  shows "(\<forall>ord \<in> set (orders s'). orderTotalOK J ord)
    \<and> (\<forall>ord. r = Inr ord \<longrightarrow> orderTotalOK J ord \<and> ord \<in> set (orders s'))"
proof (cases "updateFirst (\<lambda>row. ord_id row = cp_id input)
             (paymentUpdateData input (tipTotals J input s)) (orders s)")
  case None
  with assms show ?thesis by (auto simp add: order_confirmPayment_handler_def)
next
  case (Some p)
  obtain y ys where p: "p = (y, ys)" by (cases p)
  from updateFirst_inv [OF Some [unfolded p], of "orderTotalOK J"] assms(1)
  have "orderTotalOK J y \<and> y \<in> set ys \<and> (\<forall>x \<in> set ys. orderTotalOK J x)"
    by (simp add: paymentUpdateData_OK)
  with Some p assms(2) show ?thesis by (auto simp add: order_confirmPayment_handler_def)
qed

lemma resolveOrderCustomer_orders:
  "resolveOrderCustomer info addr s = (r, s1) \<Longrightarrow> orders s1 = orders s \<and> menuItems s1 = menuItems s
     \<and> restaurantConfigs s1 = restaurantConfigs s \<and> reservations s1 = reservations s"
  by (auto simp: resolveOrderCustomer_def Let_def split: option.splits if_splits)

lemma resolveOrderCustomer_succeeds:
  "\<exists>customer s1. resolveOrderCustomer info addr s = (Inr customer, s1)"
proof (cases "find (\<lambda>c. cu_phone c = ci_phone info) (customers s)")
  case None
  then show ?thesis by (simp add: resolveOrderCustomer_def Let_def)
next
  case (Some customer)
  from find_Some_set [OF this] have "customer \<in> set (customers s)" by simp
  with Some show ?thesis
    by (auto simp: resolveOrderCustomer_def Let_def updateFirst_None split: option.splits)
qed

lemma create_result:
  assumes "order_create_handler J input orderNumber s = (Inr order, s')"
  shows "ord_tipAmount order = js_num J 0 \<and> ord_discountAmount order = js_num J 0
    \<and> orderTotalOK J order
    \<and> orders s' = orders s @ [order]"
proof -
  from assms obtain subtotal processedItems deliveryFee customer s1 where
    h: "processItems J (menuItems s) (co_items input) (js_num J 0, []) = Inr (subtotal, processedItems)"
    "computeDeliveryFee J (co_orderType input) (activeConfig s) subtotal = Inr deliveryFee"
    "resolveOrderCustomer (co_customerInfo input) (co_deliveryAddress input) s = (Inr customer, s1)"
    unfolding order_create_handler_def
    by (auto simp: Let_def split: sum.splits prod.splits)
  from resolveOrderCustomer_orders [OF h(3)] have o: "orders s1 = orders s" by simp
  from assms h o show ?thesis
    unfolding order_create_handler_def
    by (auto simp: Let_def orderTotalOK_def calculateOrderTotal_def defaultTipAmount_def
        defaultDiscountAmount_def)
qed

lemma create_failure:
  assumes "order_create_handler J input orderNumber s = (Inl e, s')"
  shows "s' = s"
  using assms resolveOrderCustomer_succeeds [of "co_customerInfo input" "co_deliveryAddress input" s]
  unfolding order_create_handler_def
  by (auto simp: Let_def split: sum.splits prod.splits)

lemma requireRole_cases:
  "requireRole roles next ctx s = next ctx s
   \<or> requireRole roles next ctx s = (Inl UNAUTHORIZED, s)
   \<or> requireRole roles next ctx s = (Inl FORBIDDEN, s)"
  by (auto simp: requireRole_def split: option.splits)

lemma performOrderCall_inv:
  assumes inv: "\<forall>ord \<in> set (orders s). orderTotalOK J ord"
    and call: "performOrderCall J call ctx s = (r, s')"
  shows "(\<forall>ord \<in> set (orders s'). orderTotalOK J ord)
    \<and> (\<forall>ord. r = Inr ord \<longrightarrow> orderTotalOK J ord \<and> ord \<in> set (orders s'))"
proof (cases call)
  case (Create input orderNumber)
  show ?thesis
  proof (cases "createOrderSchema J input")
    case False
    with call Create have "r = Inl BAD_REQUEST" "s' = s"
      by (simp_all add: order_create_def publicProcedure_def inputSchema_def)
    with inv show ?thesis by simp
  next
    case True
    with call Create have h: "order_create_handler J input orderNumber s = (r, s')"
      by (simp add: order_create_def publicProcedure_def inputSchema_def)
  show ?thesis
  proof (cases r)
    case (Inl e)
    with h create_failure have "s' = s" by blast
    with inv Inl show ?thesis by simp
  next
    case (Inr order)
    with h create_result [of J input orderNumber s order s'] inv show ?thesis by auto
  qed
  qed
next
  case (UpdateStatus input now)
  with call requireRole_cases
    [of "[''ADMIN'', ''KITCHEN'', ''WAITER'', ''CASHIER'']"
      "inputSchema (updateOrderStatusSchema input) (\<lambda>ctx. order_updateStatus_handler input now)"
      ctx s]
  consider "order_updateStatus_handler input now s = (r, s')"
    | e where "r = Inl e" "s' = s"
    by (auto simp: order_updateStatus_def staffProcedure_def inputSchema_def
        updateOrderStatusSchema_def)
  then show ?thesis
  proof cases
    case 1
    from updateStatus_inv [OF inv 1] show ?thesis .
  next
    case 2
    with inv show ?thesis by simp
  qed
next
  case (ConfirmPayment input)
  with call requireRole_cases
    [of "[''ADMIN'', ''KITCHEN'', ''WAITER'', ''CASHIER'']"
      "inputSchema (confirmPaymentSchema input) (\<lambda>ctx. order_confirmPayment_handler J input)"
      ctx s]
  consider "order_confirmPayment_handler J input s = (r, s')"
    | e where "r = Inl e" "s' = s"
    by (auto simp: order_confirmPayment_def staffProcedure_def inputSchema_def
        confirmPaymentSchema_def)
  then show ?thesis
  proof cases
    case 1
    from confirmPayment_inv [OF inv 1] show ?thesis .
  next
    case 2
    with inv show ?thesis by simp
  qed
qed

lemma runOrderCalls_inv:
  "\<forall>ord \<in> set (orders s). orderTotalOK J ord \<Longrightarrow>
     \<forall>ord \<in> set (orders (runOrderCalls J calls s)). orderTotalOK J ord"
proof (induction calls arbitrary: s)
  case Nil
  then show ?case by simp
next
  case (Cons c calls)
  obtain ctx call where c: "c = (ctx, call)" by (cases c)
  obtain r s' where p: "performOrderCall J call ctx s = (r, s')"
    by (cases "performOrderCall J call ctx s")
  from performOrderCall_inv [OF Cons.prems p]
  have "\<forall>ord \<in> set (orders s'). orderTotalOK J ord" by simp
  from Cons.IH [OF this] c p show ?case by simp
qed

lemma confirmPayment_tip:
  assumes "order_confirmPayment_handler J input s = (Inr paid, s')"
    and "cp_tipAmount input = Some tip" and "js_truthy J tip" and "js_gt J tip (js_num J 0)"
  shows "\<exists>stored. find (\<lambda>row. ord_id row = cp_id input) (orders s) = Some stored
     \<and> ord_tipAmount paid = tip
     \<and> ord_total paid =
         js_sub J
           (js_add J
              (js_add J (js_add J (ord_subtotal stored) (ord_taxAmount stored))
                 (ord_deliveryFee stored))
              tip)
           (ord_discountAmount stored)
     \<and> ord_subtotal paid = ord_subtotal stored \<and> ord_taxAmount paid = ord_taxAmount stored
     \<and> ord_deliveryFee paid = ord_deliveryFee stored
     \<and> ord_discountAmount paid = ord_discountAmount stored"
proof -
  from assms(1) obtain rows where
    u: "updateFirst (\<lambda>row. ord_id row = cp_id input)
          (paymentUpdateData input (tipTotals J input s)) (orders s) = Some (paid, rows)"
    by (auto simp: order_confirmPayment_handler_def split: option.splits)
  from updateFirst_Some [OF u] obtain stored where
    f: "find (\<lambda>row. ord_id row = cp_id input) (orders s) = Some stored"
    and p: "paid = paymentUpdateData input (tipTotals J input s) stored"
    by blast
  from f assms(2,3,4) have "tipTotals J input s =
    Some (tip, js_sub J
           (js_add J
              (js_add J (js_add J (ord_subtotal stored) (ord_taxAmount stored))
                 (ord_deliveryFee stored))
              tip)
           (ord_discountAmount stored))"
    by (simp add: tipTotals_def)
  with f p show ?thesis by (simp add: paymentUpdateData_def)
qed

text \<open>
  C1. The invariant \<open>total = subtotal + taxAmount + deliveryFee + tipAmount -
  discountAmount\<close> (the sum from left to right, in the arithmetic of the program)
  holds for every order in the database after any sequence of
  \<^verbatim>\<open>order.create\<close>, \<^verbatim>\<open>order.updateStatus\<close> and \<^verbatim>\<open>order.confirmPayment\<close> calls
  (from a database where it holds, such as one without orders), and for the order each
  successful call returns. An order persisted by \<^verbatim>\<open>order.create\<close> has tip and
  discount 0. A successful \<^verbatim>\<open>order.confirmPayment\<close> with a positive tip stores the
  tip and the total recomputed from the stored subtotal, tax, delivery fee and
  discount; its input carries no total.
\<close>

theorem order_total_invariant:
  "((\<forall>ord \<in> set (orders s). orderTotalOK J ord) \<longrightarrow>
      (\<forall>ord \<in> set (orders (runOrderCalls J calls s)). orderTotalOK J ord)
      \<and> (\<forall>ord s1. performOrderCall J call ctx s = (Inr ord, s1) \<longrightarrow>
            orderTotalOK J ord \<and> ord \<in> set (orders s1)))
   \<and> (order_create J input orderNumber ctx s = (Inr order, s2) \<longrightarrow>
        orders s2 = orders s @ [order] \<and> ord_tipAmount order = js_num J 0
        \<and> ord_discountAmount order = js_num J 0 \<and> orderTotalOK J order)
   \<and> (order_confirmPayment J payment ctx s = (Inr paid, s3) \<and> cp_tipAmount payment = Some tip
        \<and> js_truthy J tip \<and> js_gt J tip (js_num J 0) \<longrightarrow>
        (\<exists>stored. find (\<lambda>row. ord_id row = cp_id payment) (orders s) = Some stored
           \<and> ord_tipAmount paid = tip
           \<and> ord_total paid =
               js_sub J
           (js_add J
              (js_add J (js_add J (ord_subtotal stored) (ord_taxAmount stored))
                 (ord_deliveryFee stored))
              tip)
           (ord_discountAmount stored)))"
proof (intro conjI impI allI)
  assume "\<forall>ord \<in> set (orders s). orderTotalOK J ord"
  then show "\<forall>ord \<in> set (orders (runOrderCalls J calls s)). orderTotalOK J ord"
    by (rule runOrderCalls_inv)
next
  fix ord s1
  assume "\<forall>ord \<in> set (orders s). orderTotalOK J ord"
    and "performOrderCall J call ctx s = (Inr ord, s1)"
  from performOrderCall_inv [OF this]
  show "orderTotalOK J ord" and "ord \<in> set (orders s1)" by simp_all
next
  assume "order_create J input orderNumber ctx s = (Inr order, s2)"
  then have "order_create_handler J input orderNumber s = (Inr order, s2)"
    by (simp add: order_create_Inr)
  from create_result [OF this]
  show "orders s2 = orders s @ [order]" and "ord_tipAmount order = js_num J 0"
    and "ord_discountAmount order = js_num J 0" and "orderTotalOK J order"
    by simp_all
next
  assume a: "order_confirmPayment J payment ctx s = (Inr paid, s3) \<and> cp_tipAmount payment = Some tip
        \<and> js_truthy J tip \<and> js_gt J tip (js_num J 0)"
  with requireRole_cases
    [of "[''ADMIN'', ''KITCHEN'', ''WAITER'', ''CASHIER'']"
      "inputSchema (confirmPaymentSchema payment)
         (\<lambda>ctx. order_confirmPayment_handler J payment)" ctx s]
  have "order_confirmPayment_handler J payment s = (Inr paid, s3)"
    by (auto simp: order_confirmPayment_def staffProcedure_def inputSchema_def
        confirmPaymentSchema_def)
  from confirmPayment_tip [OF this, of tip] a
  show "\<exists>stored. find (\<lambda>row. ord_id row = cp_id payment) (orders s) = Some stored
           \<and> ord_tipAmount paid = tip
           \<and> ord_total paid =
               js_sub J
           (js_add J
              (js_add J (js_add J (ord_subtotal stored) (ord_taxAmount stored))
                 (ord_deliveryFee stored))
              tip)
           (ord_discountAmount stored)"
    by auto
qed

lemma exConfirm:
  "order_confirmPayment exPlatform exPayment (exStaff ''CASHIER'')
       (exStore\<lparr>customers := [exCustomer], orders := [exOrder TAKEOUT], nextId := 2\<rparr>)
     = (Inr exPaid, exStore\<lparr>customers := [exCustomer], orders := [exPaid], nextId := 2\<rparr>)"
  by (simp add: handler_defs platform_defs example_defs Let_def)

theorem order_total_invariant_witness:
  "orders exStore = []
   \<and> list_all (orderTotalOK exPlatform) (orders (runOrderCalls exPlatform exCalls exStore))
   \<and> map ord_total (orders (runOrderCalls exPlatform exCalls exStore)) = [1202 / 5]
   \<and> order_create exPlatform (exOrderInput TAKEOUT) ''ORD-1'' exAnonymous exStore
       = (Inr (exOrder TAKEOUT),
          exStore\<lparr>customers := [exCustomer], orders := [exOrder TAKEOUT], nextId := 2\<rparr>)
   \<and> ord_tipAmount (exOrder TAKEOUT) = 0 \<and> ord_discountAmount (exOrder TAKEOUT) = 0
   \<and> orderTotalOK exPlatform (exOrder TAKEOUT)
   \<and> order_confirmPayment exPlatform exPayment (exStaff ''CASHIER'')
        (exStore\<lparr>customers := [exCustomer], orders := [exOrder TAKEOUT], nextId := 2\<rparr>)
       = (Inr exPaid, exStore\<lparr>customers := [exCustomer], orders := [exPaid], nextId := 2\<rparr>)
   \<and> ord_total exPaid = 190 + 152 / 5 + 0 + 20 - 0"
proof -
  have e: "orders exStore = []" by (simp add: exStore_def)
  then have inv: "\<forall>ord \<in> set (orders exStore). orderTotalOK exPlatform ord" by simp
  note inst = order_total_invariant
    [where J = exPlatform and s = exStore and calls = exCalls and input = "exOrderInput TAKEOUT"
      and orderNumber = "''ORD-1''" and ctx = exAnonymous and order = "exOrder TAKEOUT"
      and ?s2.0 = "exStore\<lparr>customers := [exCustomer], orders := [exOrder TAKEOUT], nextId := 2\<rparr>"]
  from inst [THEN conjunct1, THEN mp, OF inv, THEN conjunct1]
  have a: "list_all (orderTotalOK exPlatform) (orders (runOrderCalls exPlatform exCalls exStore))"
    by (simp add: list_all_iff)
  have b: "map ord_total (orders (runOrderCalls exPlatform exCalls exStore)) = [1202 / 5]"
    by (simp add: handler_defs platform_defs example_defs Let_def)
  from inst [THEN conjunct2, THEN conjunct1, THEN mp, OF exCreate]
  have c: "ord_tipAmount (exOrder TAKEOUT) = 0 \<and> ord_discountAmount (exOrder TAKEOUT) = 0
   \<and> orderTotalOK exPlatform (exOrder TAKEOUT)" by (simp add: platform_defs)
  have h: "order_confirmPayment exPlatform exPayment (exStaff ''CASHIER'')
       (exStore\<lparr>customers := [exCustomer], orders := [exOrder TAKEOUT], nextId := 2\<rparr>)
     = (Inr exPaid, exStore\<lparr>customers := [exCustomer], orders := [exPaid], nextId := 2\<rparr>)
     \<and> cp_tipAmount exPayment = Some 20 \<and> js_truthy exPlatform 20
     \<and> js_gt exPlatform 20 (js_num exPlatform 0)"
    using exConfirm by (simp add: exPayment_def platform_defs)
  from order_total_invariant [THEN conjunct2, THEN conjunct2, THEN mp, OF h]
  have d: "ord_total exPaid = 190 + 152 / 5 + 0 + 20 - 0"
    by (auto simp: example_defs platform_defs)
  from e a b c d exCreate exConfirm show ?thesis by simp
qed

subsection \<open>Delivery orders\<close>

text \<open>
  C3. A request with order type DELIVERY that passes the input validation of
  \<^verbatim>\<open>order.create\<close>, and whose computed subtotal is below the configured minimum
  order, fails with \<open>PRECONDITION_FAILED\<close>, and the database after the call is the
  database before it: no order row, and no other row, is written. (A request that the
  input validation refuses never has a subtotal computed: it fails with
  \<open>BAD_REQUEST\<close>.)
\<close>

theorem delivery_minimum_order:
  assumes "createOrderSchema J input"
    and "co_orderType input = DELIVERY"
    and "processItems J (menuItems s) (co_items input) (js_num J 0, []) = Inr (subtotal, lines)"
    and "activeConfig s = Some config"
    and "cfg_deliveryConfig config = Some deliveryConfig"
    and "dc_minimum_order deliveryConfig = Some minimum"
    and "js_lt J subtotal minimum"
  shows "order_create J input orderNumber ctx s = (Inl PRECONDITION_FAILED, s)"
  using assms
  by (simp add: order_create_def publicProcedure_def inputSchema_def
      order_create_handler_def computeDeliveryFee_def Let_def)

theorem delivery_minimum_order_witness:
  "createOrderSchema exPlatform exSmallOrder
   \<and> co_orderType exSmallOrder = DELIVERY
   \<and> processItems exPlatform (menuItems exStore) (co_items exSmallOrder) (0, [])
       = Inr (85,
           [\<lparr>oi_menuItemId = 1, oi_quantity = 1, oi_unitPrice = 85, oi_totalPrice = 85,
             oi_specialInstructions = None, oi_modifiers = None\<rparr>])
   \<and> activeConfig exStore = Some exConfig
   \<and> cfg_deliveryConfig exConfig
       = Some \<lparr>dc_fee = Some 25, dc_minimum_order = Some 150, dc_is_free_over_amount = None\<rparr>
   \<and> js_lt exPlatform 85 150
   \<and> order_create exPlatform exSmallOrder ''ORD-2'' exAnonymous exStore
       = (Inl PRECONDITION_FAILED, exStore)"
proof -
  have 0: "createOrderSchema exPlatform exSmallOrder"
    by (simp add: createOrderSchema_def orderItemSchema_def exSmallOrder_def exOrderInput_def)
  have 1: "co_orderType exSmallOrder = DELIVERY"
    by (simp add: exSmallOrder_def exOrderInput_def)
  have z: "js_num exPlatform 0 = 0" by (simp add: exPlatform_def)
  have 2: "processItems exPlatform (menuItems exStore) (co_items exSmallOrder)
             (js_num exPlatform 0, [])
       = Inr (85,
           [\<lparr>oi_menuItemId = 1, oi_quantity = 1, oi_unitPrice = 85, oi_totalPrice = 85,
             oi_specialInstructions = None, oi_modifiers = None\<rparr>])"
    by (simp add: example_defs platform_defs)
  have 3: "activeConfig exStore = Some exConfig"
    by (simp add: activeConfig_def example_defs)
  have 4: "cfg_deliveryConfig exConfig
       = Some \<lparr>dc_fee = Some 25, dc_minimum_order = Some 150, dc_is_free_over_amount = None\<rparr>"
    by (simp add: exConfig_def)
  have 5: "dc_minimum_order \<lparr>dc_fee = Some (25::rat), dc_minimum_order = Some 150,
      dc_is_free_over_amount = None\<rparr> = Some 150" by simp
  have 6: "js_lt exPlatform 85 150" by (simp add: exPlatform_def)
  from delivery_minimum_order [OF 0 1 2 3 4 5 6, of "''ORD-2''" exAnonymous] 0 1 2 3 4 6 z
  show ?thesis by simp
qed

text \<open>
  C10. For a DELIVERY request that passes the input validation and whose items are all
  on the menu and available: when there is no active restaurant configuration, or the
  active one has no delivery configuration, no minimum is checked (the subtotal is not
  constrained) and the order is created with delivery fee 0.
\<close>

theorem delivery_without_config:
  assumes "createOrderSchema J input"
    and "co_orderType input = DELIVERY"
    and "processItems J (menuItems s) (co_items input) (js_num J 0, []) = Inr (subtotal, lines)"
    and "activeConfig s = None
         \<or> (\<exists>config. activeConfig s = Some config \<and> cfg_deliveryConfig config = None)"
  shows "\<exists>order s'. order_create J input orderNumber ctx s = (Inr order, s')
           \<and> ord_deliveryFee order = js_num J 0 \<and> ord_subtotal order = subtotal
           \<and> orders s' = orders s @ [order]"
proof -
  from assms(2,4)
  have fee: "computeDeliveryFee J (co_orderType input) (activeConfig s) subtotal
               = Inr (js_num J 0)"
    by (auto simp: computeDeliveryFee_def)
  obtain customer s1 where
    c: "resolveOrderCustomer (co_customerInfo input) (co_deliveryAddress input) s = (Inr customer, s1)"
    using resolveOrderCustomer_succeeds by blast
  from resolveOrderCustomer_orders [OF c] have "orders s1 = orders s" by simp
  with assms(1,3) fee c show ?thesis
    by (simp add: order_create_def publicProcedure_def inputSchema_def
        order_create_handler_def Let_def calculateOrderTotal_def)
qed

theorem delivery_without_config_witness:
  "createOrderSchema exPlatform (exOrderInput DELIVERY)
   \<and> co_orderType (exOrderInput DELIVERY) = DELIVERY
   \<and> processItems exPlatform (menuItems (exStore\<lparr>restaurantConfigs := []\<rparr>))
        (co_items (exOrderInput DELIVERY)) (0, []) = Inr (190, exLines)
   \<and> activeConfig (exStore\<lparr>restaurantConfigs := []\<rparr>) = None
   \<and> (\<exists>order s'. order_create exPlatform (exOrderInput DELIVERY) ''ORD-1'' exAnonymous
                     (exStore\<lparr>restaurantConfigs := []\<rparr>) = (Inr order, s')
           \<and> ord_deliveryFee order = 0 \<and> ord_subtotal order = 190
           \<and> orders s' = orders (exStore\<lparr>restaurantConfigs := []\<rparr>) @ [order])
   \<and> activeConfig (exStore\<lparr>restaurantConfigs := [exConfig\<lparr>cfg_deliveryConfig := None\<rparr>]\<rparr>)
       = Some (exConfig\<lparr>cfg_deliveryConfig := None\<rparr>)
   \<and> (\<exists>order s'. order_create exPlatform (exOrderInput DELIVERY) ''ORD-1'' exAnonymous
                     (exStore\<lparr>restaurantConfigs := [exConfig\<lparr>cfg_deliveryConfig := None\<rparr>]\<rparr>)
                = (Inr order, s')
           \<and> ord_deliveryFee order = 0 \<and> ord_subtotal order = 190)"
proof -
  have 0: "createOrderSchema exPlatform (exOrderInput DELIVERY)"
    by (simp add: createOrderSchema_def orderItemSchema_def exOrderInput_def exItems_def)
  have 1: "co_orderType (exOrderInput DELIVERY) = DELIVERY"
    by (simp add: exOrderInput_def)
  have z: "js_num exPlatform 0 = 0" by (simp add: exPlatform_def)
  have 2: "processItems exPlatform (menuItems (exStore\<lparr>restaurantConfigs := []\<rparr>))
        (co_items (exOrderInput DELIVERY)) (js_num exPlatform 0, []) = Inr (190, exLines)"
    by (simp add: example_defs platform_defs)
  have 3: "activeConfig (exStore\<lparr>restaurantConfigs := []\<rparr>) = None"
    by (simp add: activeConfig_def)
  have 4: "processItems exPlatform
        (menuItems (exStore\<lparr>restaurantConfigs := [exConfig\<lparr>cfg_deliveryConfig := None\<rparr>]\<rparr>))
        (co_items (exOrderInput DELIVERY)) (js_num exPlatform 0, []) = Inr (190, exLines)"
    by (simp add: example_defs platform_defs)
  have 5: "activeConfig (exStore\<lparr>restaurantConfigs := [exConfig\<lparr>cfg_deliveryConfig := None\<rparr>]\<rparr>)
       = Some (exConfig\<lparr>cfg_deliveryConfig := None\<rparr>)"
    by (simp add: activeConfig_def exConfig_def)
  have 6: "\<exists>config.
      activeConfig (exStore\<lparr>restaurantConfigs := [exConfig\<lparr>cfg_deliveryConfig := None\<rparr>]\<rparr>)
        = Some config \<and> cfg_deliveryConfig config = None"
    using 5 by simp
  from delivery_without_config [OF 0 1 2 disjI1, OF 3, of "''ORD-1''" exAnonymous]
    delivery_without_config [OF 0 1 4 disjI2, OF 6, of "''ORD-1''" exAnonymous] 0 1 2 3 5 z
  show ?thesis by auto
qed

subsection \<open>Times of the day\<close>

lemma isDigit_digitChar: "d < 10 \<Longrightarrow> isDigit (digitChar d)"
proof -
  assume "d < 10"
  then have "d \<in> {0,1,2,3,4,5,6,7,8,9}" by auto
  then show ?thesis by (auto simp: isDigit_def digitChar_def)
qed

lemma digitValue_digitChar: "d < 10 \<Longrightarrow> digitValue (digitChar d) = d"
proof -
  assume "d < 10"
  then have "d \<in> {0,1,2,3,4,5,6,7,8,9}" by auto
  then show ?thesis by (auto simp: digitValue_def digitChar_def)
qed

lemma colon_digitChar: "d < 10 \<Longrightarrow> digitChar d \<noteq> CHR '':''"
proof -
  assume "d < 10"
  then have "d \<in> {0,1,2,3,4,5,6,7,8,9}" by auto
  then show ?thesis by (auto simp: digitChar_def)
qed

lemma toString_digits: "list_all isDigit (toString n) \<and> CHR '':'' \<notin> set (toString n)"
proof (induction n rule: toString.induct)
  case (1 n)
  show ?case
  proof (cases "n < 10")
    case True
    then show ?thesis
      using isDigit_digitChar [of n] colon_digitChar [of n] by (subst toString.simps, subst toString.simps) simp
  next
    case False
    with "1.IH" show ?thesis
      using isDigit_digitChar [of "n mod 10"] colon_digitChar [of "n mod 10"]
      by (subst toString.simps, subst toString.simps) simp
  qed
qed

lemma toString_value: "foldl (\<lambda>n c. 10 * n + digitValue c) 0 (toString n) = n"
proof (induction n rule: toString.induct)
  case (1 n)
  show ?case
  proof (cases "n < 10")
    case True
    then show ?thesis by (subst toString.simps) (simp add: digitValue_digitChar)
  next
    case False
    with "1.IH" show ?thesis
      by (subst toString.simps) (simp add: digitValue_digitChar)
  qed
qed

lemma foldl_zeros:
  "foldl (\<lambda>n c. 10 * n + digitValue c) 0 (replicate k CHR ''0'' @ str)
     = foldl (\<lambda>n c. 10 * n + digitValue c) 0 str"
  by (induction k) (simp_all add: digitValue_def)

lemma Number_padStart2_toString: "Number (padStart2 (toString n)) = Some n"
proof -
  have z: "isDigit CHR ''0''" by (simp add: isDigit_def)
  have d: "list_all isDigit (padStart2 (toString n))"
    using toString_digits [of n] z
    by (auto simp add: padStart2_def list_all_iff simp del: toString.simps)
  have v: "foldl (\<lambda>n c. 10 * n + digitValue c) 0 (padStart2 (toString n)) = n"
    unfolding padStart2_def by (simp only: foldl_zeros toString_value)
  from d v show ?thesis by (simp add: Number_def)
qed

lemma colon_padStart2_toString: "CHR '':'' \<notin> set (padStart2 (toString n))"
  using toString_digits [of n] by (auto simp: padStart2_def simp del: toString.simps)

lemma split_no_sep: "sep \<notin> set str \<Longrightarrow> split sep str = [str]"
  by (induction str) auto

lemma split_at_sep:
  "sep \<notin> set a \<Longrightarrow> split sep (a @ sep # b) = a # split sep b"
  by (induction a) (auto split: list.splits)

lemma minutesOf_timeString: "minutesOf (timeString n) = Some n"
proof -
  have "split CHR '':'' (timeString n)
      = [padStart2 (toString (n div 60)), padStart2 (toString (n mod 60))]"
    unfolding timeString_def Let_def
    using split_at_sep [OF colon_padStart2_toString, of "n div 60" "padStart2 (toString (n mod 60))"]
      split_no_sep [OF colon_padStart2_toString, of "n mod 60"]
    by (simp del: toString.simps)
  then show ?thesis
    by (simp add: minutesOf_def Number_padStart2_toString del: toString.simps)
qed

subsection \<open>Opening hours\<close>

lemma exSchedule:
  "activeConfig exStore = Some exConfig \<and> svc_reservations (cfg_services exConfig)
   \<and> daySchedule exConfig exMonday
       = Some \<lparr>ds_open = ''09:00'', ds_close = ''22:00'', ds_is_closed = False\<rparr>
   \<and> daySchedule exConfig exWednesday
       = Some \<lparr>ds_open = ''09:00'', ds_close = ''22:00'', ds_is_closed = True\<rparr>"
  by (simp add: activeConfig_def example_defs reservation_defs)

lemma exMinutes:
  "minutesOf ''09:00'' = Some 540 \<and> minutesOf ''22:00'' = Some 1320
   \<and> minutesOf ''19:30'' = Some 1170 \<and> minutesOf ''20:30'' = Some 1230"
  by (simp add: reservation_defs)

lemma exValid:
  "createReservationSchema exToday (exReservation exMonday ''19:30'')
   \<and> createReservationSchema exToday (exReservation exMonday ''20:30'')
   \<and> createReservationSchema exToday (exReservation exWednesday ''19:30'')
   \<and> \<not> createReservationSchema exToday (exReservation (Date 1735084800000) ''19:30'')"
  by (simp add: createReservationSchema_def timeFormat_def isDigit_def example_defs)

text \<open>
  C8. \<^verbatim>\<open>reservation.create\<close> compares minutes since midnight: for a request that
  passes the input validation and reaches the check (active configuration, reservations
  on, the day open) with times that parse, the call fails with \<open>BAD_REQUEST\<close> exactly
  when the requested time is before the opening time or after the closing time minus
  120 minutes. The time format of the router, \<open>timeString\<close>, parses back to the
  minute it was made from. With the hours 09:00 to 22:00 the check rejects 20:30 and
  lets 19:30 pass.
\<close>

theorem reservation_time_window:
  assumes "createReservationSchema today input"
    and "activeConfig s = Some config"
    and "svc_reservations (cfg_services config)"
    and "daySchedule config (cr_reservationDate input) = Some schedule"
    and "\<not> ds_is_closed schedule"
    and "minutesOf (cr_reservationTime input) = Some r"
    and "minutesOf (ds_open schedule) = Some op"
    and "minutesOf (ds_close schedule) = Some cl"
  shows "(fst (reservation_create input today ctx s) = Inl BAD_REQUEST
            \<longleftrightarrow> r < op \<or> int r > int cl - 120)
     \<and> (\<forall>n. minutesOf (timeString n) = Some n)
     \<and> outsideOpeningHours ''20:30''
           \<lparr>ds_open = ''09:00'', ds_close = ''22:00'', ds_is_closed = flag\<rparr>
     \<and> \<not> outsideOpeningHours ''19:30''
           \<lparr>ds_open = ''09:00'', ds_close = ''22:00'', ds_is_closed = flag\<rparr>"
proof (intro conjI)
  from assms
  show "fst (reservation_create input today ctx s) = Inl BAD_REQUEST
          \<longleftrightarrow> r < op \<or> int r > int cl - 120"
    by (auto simp: reservation_create_def publicProcedure_def inputSchema_def
        reservation_create_handler_def outsideOpeningHours_def Let_def split: prod.splits)
  show "\<forall>n. minutesOf (timeString n) = Some n"
    by (simp add: minutesOf_timeString)
  show "outsideOpeningHours ''20:30''
          \<lparr>ds_open = ''09:00'', ds_close = ''22:00'', ds_is_closed = flag\<rparr>"
    by (simp add: outsideOpeningHours_def minutesOf_def Number_def isDigit_def digitValue_def)
  show "\<not> outsideOpeningHours ''19:30''
          \<lparr>ds_open = ''09:00'', ds_close = ''22:00'', ds_is_closed = flag\<rparr>"
    by (simp add: outsideOpeningHours_def minutesOf_def Number_def isDigit_def digitValue_def)
qed

theorem reservation_time_window_witness:
  "createReservationSchema exToday (exReservation exMonday ''19:30'')
   \<and> createReservationSchema exToday (exReservation exMonday ''20:30'')
   \<and> activeConfig exStore = Some exConfig \<and> svc_reservations (cfg_services exConfig)
   \<and> daySchedule exConfig exMonday
       = Some \<lparr>ds_open = ''09:00'', ds_close = ''22:00'', ds_is_closed = False\<rparr>
   \<and> minutesOf ''09:00'' = Some 540 \<and> minutesOf ''22:00'' = Some 1320
   \<and> minutesOf ''19:30'' = Some 1170 \<and> minutesOf ''20:30'' = Some 1230
   \<and> fst (reservation_create (exReservation exMonday ''20:30'') exToday exAnonymous exStore)
       = Inl BAD_REQUEST
   \<and> fst (reservation_create (exReservation exMonday ''19:30'') exToday exAnonymous exStore)
       = Inr (exReservationRow 1 exMonday ''19:30:00'' R_PENDING)"
proof -
  let ?sch = "\<lparr>ds_open = ''09:00'', ds_close = ''22:00'', ds_is_closed = False\<rparr>"
  have a: "daySchedule exConfig (cr_reservationDate (exReservation exMonday t)) = Some ?sch" for t
    using exSchedule by (simp add: exReservation_def)
  have c: "\<not> ds_is_closed ?sch" by simp
  have op: "minutesOf (ds_open ?sch) = Some 540" and cl: "minutesOf (ds_close ?sch) = Some 1320"
    using exMinutes by simp_all
  have late: "minutesOf (cr_reservationTime (exReservation exMonday ''20:30'')) = Some 1230"
    and fine: "minutesOf (cr_reservationTime (exReservation exMonday ''19:30'')) = Some 1170"
    using exMinutes by (simp_all add: exReservation_def)
  from exSchedule have cfg: "activeConfig exStore = Some exConfig"
    and svc: "svc_reservations (cfg_services exConfig)" by simp_all
  from exValid have v1: "createReservationSchema exToday (exReservation exMonday ''19:30'')"
    and v2: "createReservationSchema exToday (exReservation exMonday ''20:30'')" by simp_all
  from reservation_time_window [OF v2 cfg svc a c late op cl, of exAnonymous]
  have 1: "fst (reservation_create (exReservation exMonday ''20:30'') exToday exAnonymous exStore)
       = Inl BAD_REQUEST" by simp
  from reservation_time_window [OF v1 cfg svc a c fine op cl, of exAnonymous]
  have 2: "fst (reservation_create (exReservation exMonday ''19:30'') exToday exAnonymous exStore)
       \<noteq> Inl BAD_REQUEST" by simp
  have 3: "fst (reservation_create (exReservation exMonday ''19:30'') exToday exAnonymous exStore)
       = Inr (exReservationRow 1 exMonday ''19:30:00'' R_PENDING)"
    by (simp add: handler_defs reservation_defs example_defs Let_def)
  from exSchedule exMinutes v1 v2 1 3 show ?thesis by simp
qed

text \<open>
  C9. A request for a day whose schedule is flagged \<open>is_closed\<close> always fails and
  writes nothing: the database after the call is the database before it. The error is
  \<open>FORBIDDEN\<close> when the request passes the input validation and the restaurant
  does not take reservations on line (the check of that service comes before the
  check of the day); in every other case it is \<open>BAD_REQUEST\<close>.
\<close>

theorem closed_day_rejected:
  assumes "activeConfig s = Some config"
    and "daySchedule config (cr_reservationDate input) = Some schedule"
    and "ds_is_closed schedule"
  shows "reservation_create input today ctx s
     = (Inl (if createReservationSchema today input \<and> \<not> svc_reservations (cfg_services config)
             then FORBIDDEN else BAD_REQUEST), s)"
  using assms
  by (simp add: reservation_create_def publicProcedure_def inputSchema_def
      reservation_create_handler_def)

theorem closed_day_rejected_witness:
  "activeConfig exStore = Some exConfig
   \<and> daySchedule exConfig (cr_reservationDate (exReservation exWednesday ''19:30''))
       = Some \<lparr>ds_open = ''09:00'', ds_close = ''22:00'', ds_is_closed = True\<rparr>
   \<and> svc_reservations (cfg_services exConfig)
   \<and> createReservationSchema exToday (exReservation exWednesday ''19:30'')
   \<and> reservation_create (exReservation exWednesday ''19:30'') exToday exAnonymous exStore
       = (Inl BAD_REQUEST, exStore)
   \<and> \<not> createReservationSchema exToday (exReservation (Date 1735084800000) ''19:30'')
   \<and> reservation_create (exReservation (Date 1735084800000) ''19:30'') exToday exAnonymous
         exNoReservations
       = (Inl BAD_REQUEST, exNoReservations)"
proof -
  let ?sch = "\<lparr>ds_open = ''09:00'', ds_close = ''22:00'', ds_is_closed = True\<rparr>"
  from exSchedule have cfg: "activeConfig exStore = Some exConfig"
    and svc: "svc_reservations (cfg_services exConfig)" by simp_all
  have a: "daySchedule exConfig (cr_reservationDate (exReservation exWednesday ''19:30''))
       = Some ?sch"
    using exSchedule by (simp add: exReservation_def)
  have c: "ds_is_closed ?sch" by simp
  from exValid have v: "createReservationSchema exToday (exReservation exWednesday ''19:30'')"
    by simp
  from exValid
  have w: "\<not> createReservationSchema exToday (exReservation (Date 1735084800000) ''19:30'')"
    by simp
  have cfg': "activeConfig exNoReservations
       = Some (exConfig\<lparr>cfg_services := (cfg_services exConfig)\<lparr>svc_reservations := False\<rparr>\<rparr>)"
    by (simp add: activeConfig_def exNoReservations_def exConfig_def)
  have a': "daySchedule
         (exConfig\<lparr>cfg_services := (cfg_services exConfig)\<lparr>svc_reservations := False\<rparr>\<rparr>)
         (cr_reservationDate (exReservation (Date 1735084800000) ''19:30''))
       = Some ?sch"
    by (simp add: example_defs reservation_defs)
  from closed_day_rejected [OF cfg a c, of exToday exAnonymous]
    closed_day_rejected [OF cfg' a' c, of exToday exAnonymous] cfg svc a v w
  show ?thesis by simp
qed

theorem closed_day_forbidden_counterexample:
  "createReservationSchema exToday (exReservation exWednesday ''19:30'')
   \<and> daySchedule (the (activeConfig exNoReservations))
       (cr_reservationDate (exReservation exWednesday ''19:30''))
     = Some \<lparr>ds_open = ''09:00'', ds_close = ''22:00'', ds_is_closed = True\<rparr>
   \<and> reservation_create (exReservation exWednesday ''19:30'') exToday exAnonymous
       exNoReservations
       = (Inl FORBIDDEN, exNoReservations)
   \<and> fst (reservation_create (exReservation exWednesday ''19:30'') exToday exAnonymous
       exNoReservations)
       \<noteq> Inl BAD_REQUEST"
  by (simp add: exNoReservations_def activeConfig_def handler_defs reservation_defs example_defs)

subsection \<open>Available times\<close>






















subsection \<open>Customers\<close>

lemma backfilled_refl: "backfilled phone c c"
  by (simp add: backfilled_def)

lemma list_all2_backfilled_refl: "list_all2 (backfilled phone) cs cs"
  by (simp add: list_all2_refl backfilled_refl)

lemma find_None_phone: "find (\<lambda>c. cu_phone c = phone) cs = None \<longleftrightarrow> phone \<notin> cu_phone ` set cs"
  by (induction cs) auto

lemma distinct_id_same:
  assumes "distinct (map cu_id cs)" and "x \<in> set cs" and "y \<in> set cs" and "cu_id x = cu_id y"
  shows "x = y"
  using assms by (meson distinct_map inj_onD)

lemma resolveOrderCustomer_customers:
  assumes wf: "customersWF s"
    and res: "resolveOrderCustomer info addr s = (r, s1)"
  shows "customersWF s1 \<and> nextId s \<le> nextId s1
    \<and> (ci_phone info \<in> cu_phone ` set (customers s) \<longrightarrow>
          list_all2 (backfilled (ci_phone info)) (customers s) (customers s1))
    \<and> (ci_phone info \<notin> cu_phone ` set (customers s) \<longrightarrow>
          (\<exists>c. customers s1 = customers s @ [c] \<and> cu_phone c = ci_phone info))"
proof (cases "find (\<lambda>c. cu_phone c = ci_phone info) (customers s)")
  case None
  then have nin: "ci_phone info \<notin> cu_phone ` set (customers s)"
    by (simp add: find_None_phone)
  from None res have s1: "s1 = s\<lparr>customers := customers s @
       [\<lparr>cu_id = nextId s, cu_phone = ci_phone info,
              cu_name = ci_name info, cu_email = ci_email info,
              cu_addresses = (case addr of None \<Rightarrow> [] | Some a \<Rightarrow> [a])\<rparr>],
       nextId := Suc (nextId s)\<rparr>"
    by (auto simp: resolveOrderCustomer_def Let_def)
  from wf have "nextId s \<notin> cu_id ` set (customers s)"
    by (auto simp: customersWF_def list_all_iff)
  with wf nin have "customersWF s1"
    by (auto simp: s1 customersWF_def list_all_iff)
  with nin s1 show ?thesis by simp
next
  case (Some customer)
  from find_Some_set [OF Some] have mem: "customer \<in> set (customers s)"
    and ph: "cu_phone customer = ci_phone info" by simp_all
  then have pin: "ci_phone info \<in> cu_phone ` set (customers s)" by force
  define setName where "setName \<longleftrightarrow> cu_name customer = [] \<and> ci_name info \<noteq> []"
  define setEmail where "setEmail \<longleftrightarrow> falsy (cu_email customer) \<and> \<not> falsy (ci_email info)"
  define f :: "customer \<Rightarrow> customer" where "f = (\<lambda>c. c\<lparr>cu_name := (if setName then ci_name info else cu_name c),
                           cu_email := (if setEmail then ci_email info else cu_email c)\<rparr>)"
  show ?thesis
  proof (cases "setName \<or> setEmail")
    case False
    with Some res have "s1 = s"
      by (auto simp: resolveOrderCustomer_def Let_def setName_def setEmail_def)
    with wf pin show ?thesis by (simp add: list_all2_backfilled_refl)
  next
    case True
    from mem have "updateFirst (\<lambda>c. cu_id c = cu_id customer) f (customers s) \<noteq> None"
      by (auto simp: updateFirst_None)
    then obtain y ys where u: "updateFirst (\<lambda>c. cu_id c = cu_id customer) f (customers s) = Some (y, ys)"
      by auto
    from Some res True u have s1: "s1 = s\<lparr>customers := ys\<rparr>"
      by (auto simp: resolveOrderCustomer_def Let_def setName_def setEmail_def f_def)
    from updateFirst_Some [OF u] obtain pre x post where
      xs: "customers s = pre @ x # post" and px: "cu_id x = cu_id customer"
      and ys: "ys = pre @ f x # post"
      by blast
    from wf xs mem px have x: "x = customer"
      using distinct_id_same [of "customers s" x customer] by (simp add: customersWF_def)
    have keys: "cu_phone (f x) = cu_phone x" "cu_id (f x) = cu_id x" by (simp_all add: f_def)
    from wf xs ys keys have wf1: "customersWF s1"
      by (simp add: s1 customersWF_def)
    have "backfilled (ci_phone info) x (f x)"
      using x ph by (auto simp: backfilled_def f_def setName_def setEmail_def)
    with xs ys have "list_all2 (backfilled (ci_phone info)) (customers s) (customers s1)"
      by (simp add: s1 list_all2_appendI list_all2_backfilled_refl)
    with wf1 pin show ?thesis by (simp add: s1)
  qed
qed

lemma resolveReservationCustomer_customers:
  assumes wf: "customersWF s"
    and res: "resolveReservationCustomer phone name s = (c, s1)"
  shows "customersWF s1 \<and> nextId s \<le> nextId s1
    \<and> (phone \<in> cu_phone ` set (customers s) \<longrightarrow> customers s1 = customers s)
    \<and> (phone \<notin> cu_phone ` set (customers s) \<longrightarrow>
          (\<exists>c. customers s1 = customers s @ [c] \<and> cu_phone c = phone))"
proof (cases "find (\<lambda>c. cu_phone c = phone) (customers s)")
  case None
  then have nin: "phone \<notin> cu_phone ` set (customers s)"
    by (simp add: find_None_phone)
  from None res have s1: "s1 = s\<lparr>customers := customers s @
       [\<lparr>cu_id = nextId s, cu_phone = phone, cu_name = name, cu_email = None,
         cu_addresses = []\<rparr>],
       nextId := Suc (nextId s)\<rparr>"
    by (auto simp: resolveReservationCustomer_def Let_def)
  from wf have "nextId s \<notin> cu_id ` set (customers s)"
    by (auto simp: customersWF_def list_all_iff)
  with wf nin have "customersWF s1"
    by (auto simp: s1 customersWF_def list_all_iff)
  with nin s1 show ?thesis by simp
next
  case (Some customer)
  from find_Some_set [OF Some] have "phone \<in> cu_phone ` set (customers s)" by force
  moreover from Some res have "s1 = s" by (auto simp: resolveReservationCustomer_def)
  ultimately show ?thesis using wf by simp
qed

lemma customersWF_bump:
  "customersWF s1 \<Longrightarrow> customers s' = customers s1 \<Longrightarrow> nextId s1 \<le> nextId s' \<Longrightarrow> customersWF s'"
  by (auto simp: customersWF_def list_all_iff)

lemma order_create_customers:
  assumes "order_create J input orderNumber ctx s = (Inr order, s')"
  shows "\<exists>r s1. resolveOrderCustomer (co_customerInfo input) (co_deliveryAddress input) s = (r, s1)
           \<and> customers s' = customers s1 \<and> nextId s' = Suc (nextId s1)"
proof -
  from assms have "order_create_handler J input orderNumber s = (Inr order, s')"
    by (simp add: order_create_def publicProcedure_def inputSchema_def split: if_splits)
  then show ?thesis
    unfolding order_create_handler_def
    by (auto simp: Let_def split: sum.splits prod.splits)
qed

lemma order_create_failure:
  assumes "order_create J input orderNumber ctx s = (Inl e, s')"
  shows "s' = s"
proof (cases "createOrderSchema J input")
  case True
  with assms have "order_create_handler J input orderNumber s = (Inl e, s')"
    by (simp add: order_create_def publicProcedure_def inputSchema_def)
  then show ?thesis by (rule create_failure)
next
  case False
  with assms show ?thesis
    by (simp add: order_create_def publicProcedure_def inputSchema_def)
qed

lemma reservation_create_customers:
  assumes "reservation_create input today ctx s = (Inr reservation, s')"
  shows "\<exists>c s1. resolveReservationCustomer (cr_customerPhone input) (cr_customerName input) s = (c, s1)
           \<and> customers s' = customers s1 \<and> nextId s' = Suc (nextId s1)"
proof -
  from assms have "reservation_create_handler input s = (Inr reservation, s')"
    by (simp add: reservation_create_def publicProcedure_def inputSchema_def split: if_splits)
  then show ?thesis
    unfolding reservation_create_handler_def
    by (auto simp: Let_def split: option.splits if_splits prod.splits)
qed

lemma reservation_create_failure:
  assumes "reservation_create input today ctx s = (Inl e, s')"
  shows "s' = s"
proof (cases "createReservationSchema today input")
  case True
  with assms have "reservation_create_handler input s = (Inl e, s')"
    by (simp add: reservation_create_def publicProcedure_def inputSchema_def)
  then show ?thesis
    unfolding reservation_create_handler_def
    by (auto simp: Let_def split: option.splits if_splits prod.splits)
next
  case False
  with assms show ?thesis
    by (simp add: reservation_create_def publicProcedure_def inputSchema_def)
qed

lemma performCustomerCall_customers:
  assumes wf: "customersWF s"
    and call: "performCustomerCall J call ctx s = (r, s')"
  shows "customersWF s'
    \<and> (phoneOf call \<in> cu_phone ` set (customers s) \<longrightarrow>
          list_all2 (backfilled (phoneOf call)) (customers s) (customers s'))
    \<and> ((\<exists>input today. call = ViaReservation input today) \<and> phoneOf call \<in> cu_phone ` set (customers s) \<longrightarrow>
          customers s' = customers s)
    \<and> (phoneOf call \<notin> cu_phone ` set (customers s) \<and> r = Inr () \<longrightarrow>
          (\<exists>c. customers s' = customers s @ [c] \<and> cu_phone c = phoneOf call))
    \<and> ((\<exists>e. r = Inl e) \<longrightarrow> s' = s)"
proof (cases call)
  case (ViaOrder input orderNumber)
  obtain ro so where h: "order_create J input orderNumber ctx s = (ro, so)"
    by (cases "order_create J input orderNumber ctx s")
  with call ViaOrder have s': "so = s'" and r: "r = (case ro of Inl e \<Rightarrow> Inl e | Inr x \<Rightarrow> Inr ())"
    by (auto split: sum.splits)
  show ?thesis
  proof (cases ro)
    case (Inl e)
    with h order_create_failure have "so = s" by blast
    with wf s' r Inl show ?thesis by (simp add: list_all2_backfilled_refl)
  next
    case (Inr order)
    from order_create_customers [OF h [unfolded Inr]] obtain rc s1 where
      rc: "resolveOrderCustomer (co_customerInfo input) (co_deliveryAddress input) s = (rc, s1)"
      and cs: "customers so = customers s1" and ni: "nextId so = Suc (nextId s1)"
      by blast
    from resolveOrderCustomer_customers [OF wf rc] cs ni customersWF_bump [of s1 so]
    show ?thesis using ViaOrder s' r Inr by auto
  qed
next
  case (ViaReservation input today)
  obtain ro so where h: "reservation_create input today ctx s = (ro, so)"
    by (cases "reservation_create input today ctx s")
  with call ViaReservation have s': "so = s'" and r: "r = (case ro of Inl e \<Rightarrow> Inl e | Inr x \<Rightarrow> Inr ())"
    by (auto split: sum.splits)
  show ?thesis
  proof (cases ro)
    case (Inl e)
    with h reservation_create_failure have "so = s" by blast
    with wf s' r Inl show ?thesis by (simp add: list_all2_backfilled_refl)
  next
    case (Inr reservation)
    from reservation_create_customers [OF h [unfolded Inr]] obtain c s1 where
      rc: "resolveReservationCustomer (cr_customerPhone input) (cr_customerName input) s = (c, s1)"
      and cs: "customers so = customers s1" and ni: "nextId so = Suc (nextId s1)"
      by blast
    from resolveReservationCustomer_customers [OF wf rc] cs ni customersWF_bump [of s1 so]
    show ?thesis using ViaReservation s' r Inr by (auto simp: list_all2_backfilled_refl)
  qed
qed

lemma runCustomerCalls_WF: "customersWF s \<Longrightarrow> customersWF (runCustomerCalls J calls s)"
proof (induction calls arbitrary: s)
  case Nil
  then show ?case by simp
next
  case (Cons c calls)
  obtain ctx call where c: "c = (ctx, call)" by (cases c)
  obtain r s' where p: "performCustomerCall J call ctx s = (r, s')"
    by (cases "performCustomerCall J call ctx s")
  from performCustomerCall_customers [OF Cons.prems p] have "customersWF s'" by simp
  from Cons.IH [OF this] c p show ?case by simp
qed

lemma exReserve:
  "reservation_create (exReservation exMonday ''19:30'') exToday exAnonymous exStore
     = (Inr (exReservationRow 1 exMonday ''19:30:00'' R_PENDING), exReserved)"
  by (simp add: handler_defs reservation_defs example_defs Let_def)

lemma exCustomers:
  "customers (runCustomerCalls exPlatform exCustomerCalls exStore)
     = [exCustomer\<lparr>cu_email := Some ''ana@ruiz.mx''\<rparr>]"
  by (simp add: handler_defs reservation_defs example_defs platform_defs Let_def)

text \<open>
  C7. From a well-formed Customer table (an empty one, for instance) every sequence of
  \<^verbatim>\<open>order.create\<close> and \<^verbatim>\<open>reservation.create\<close> calls leaves a well-formed table:
  at most one row per phone number. A call whose phone number is in the table adds no
  row: \<^verbatim>\<open>reservation.create\<close> leaves the table as it is, \<^verbatim>\<open>order.create\<close> may
  fill in an empty name or email of that customer and changes nothing else. A
  successful call whose phone number is not in the table appends exactly one row, with
  that phone number; a call that fails leaves the database as it is.
\<close>

theorem one_customer_per_phone:
  "(customersWF s \<longrightarrow>
      customersWF (runCustomerCalls J calls s)
      \<and> distinct (map cu_phone (customers (runCustomerCalls J calls s))))
   \<and> (customersWF s \<and> performCustomerCall J call ctx s = (r, s1) \<longrightarrow>
        (phoneOf call \<in> cu_phone ` set (customers s) \<longrightarrow>
           list_all2 (backfilled (phoneOf call)) (customers s) (customers s1))
        \<and> ((\<exists>input today. call = ViaReservation input today)
             \<and> phoneOf call \<in> cu_phone ` set (customers s) \<longrightarrow>
             customers s1 = customers s)
        \<and> (phoneOf call \<notin> cu_phone ` set (customers s) \<and> r = Inr () \<longrightarrow>
             (\<exists>c. customers s1 = customers s @ [c] \<and> cu_phone c = phoneOf call))
        \<and> ((\<exists>e. r = Inl e) \<longrightarrow> s1 = s))"
proof (intro conjI impI)
  assume "customersWF s"
  from runCustomerCalls_WF [OF this, of J calls]
  show "customersWF (runCustomerCalls J calls s)"
    and "distinct (map cu_phone (customers (runCustomerCalls J calls s)))"
    by (simp_all add: customersWF_def)
next
  assume a: "customersWF s \<and> performCustomerCall J call ctx s = (r, s1)"
  then have wf: "customersWF s" and c: "performCustomerCall J call ctx s = (r, s1)" by simp_all
  note p = performCustomerCall_customers [OF wf c]
  {
    assume "phoneOf call \<in> cu_phone ` set (customers s)"
    with p show "list_all2 (backfilled (phoneOf call)) (customers s) (customers s1)" by simp
  next
    assume "(\<exists>input today. call = ViaReservation input today)
             \<and> phoneOf call \<in> cu_phone ` set (customers s)"
    with p show "customers s1 = customers s" by simp
  next
    assume "phoneOf call \<notin> cu_phone ` set (customers s) \<and> r = Inr ()"
    with p show "\<exists>c. customers s1 = customers s @ [c] \<and> cu_phone c = phoneOf call" by simp
  next
    assume "\<exists>e. r = Inl e"
    with p show "s1 = s" by simp
  }
qed

theorem one_customer_per_phone_witness:
  "customers exStore = []
   \<and> customersWF (runCustomerCalls exPlatform exCustomerCalls exStore)
   \<and> customers (runCustomerCalls exPlatform exCustomerCalls exStore)
       = [exCustomer\<lparr>cu_email := Some ''ana@ruiz.mx''\<rparr>]
   \<and> performCustomerCall exPlatform (ViaReservation (exReservation exMonday ''19:30'') exToday)
         exAnonymous exStore
       = (Inr (), exReserved)
   \<and> customers exReserved = customers exStore @ [exCustomer]
   \<and> phoneOf (ViaOrder (exOrderWith ''Otra Persona'' ''otra@ruiz.mx'') ''ORD-2'')
       \<in> cu_phone ` set (customers exReserved)
   \<and> list_all2 (backfilled ''5512345678'') (customers exReserved)
        (customers (snd (performCustomerCall exPlatform
           (ViaOrder (exOrderWith ''Otra Persona'' ''otra@ruiz.mx'') ''ORD-2'') exAnonymous
           exReserved)))"
proof -
  have e: "customers exStore = []" by (simp add: exStore_def)
  then have wf: "customersWF exStore" by (simp add: customersWF_def)
  from one_customer_per_phone [where J = exPlatform and s = exStore and calls = exCustomerCalls,
      THEN conjunct1, THEN mp, OF wf]
  have a: "customersWF (runCustomerCalls exPlatform exCustomerCalls exStore)" by simp
  have c: "performCustomerCall exPlatform
      (ViaReservation (exReservation exMonday ''19:30'') exToday) exAnonymous
      exStore = (Inr (), exReserved)"
    using exReserve by simp
  have r: "customers exReserved = customers exStore @ [exCustomer]"
    by (simp add: exReserved_def exStore_def)
  have wf2: "customersWF exReserved"
    by (simp add: customersWF_def exReserved_def exCustomer_def exStore_def)
  have ph: "phoneOf (ViaOrder (exOrderWith ''Otra Persona'' ''otra@ruiz.mx'') ''ORD-2'')
       \<in> cu_phone ` set (customers exReserved)"
    by (simp add: exOrderWith_def exReserved_def exCustomer_def exStore_def exOrderInput_def)
  obtain r2 s2 where p: "performCustomerCall exPlatform
           (ViaOrder (exOrderWith ''Otra Persona'' ''otra@ruiz.mx'') ''ORD-2'') exAnonymous
           exReserved = (r2, s2)"
    by (cases "performCustomerCall exPlatform
           (ViaOrder (exOrderWith ''Otra Persona'' ''otra@ruiz.mx'') ''ORD-2'') exAnonymous
           exReserved")
  from one_customer_per_phone [where J = exPlatform and s = exReserved and ctx = exAnonymous
      and call = "ViaOrder (exOrderWith ''Otra Persona'' ''otra@ruiz.mx'') ''ORD-2''"
      and r = r2 and ?s1.0 = s2, THEN conjunct2, THEN mp, OF conjI, OF wf2 p, THEN conjunct1,
      THEN mp, OF ph] p
  have b: "list_all2 (backfilled ''5512345678'') (customers exReserved)
        (customers (snd (performCustomerCall exPlatform
           (ViaOrder (exOrderWith ''Otra Persona'' ''otra@ruiz.mx'') ''ORD-2'') exAnonymous
           exReserved)))"
    by (simp add: exOrderWith_def exOrderInput_def)
  from e a exCustomers c r ph b show ?thesis by simp
qed

subsection \<open>Cancelling a reservation\<close>

lemma cancel_phone_mismatch:
  assumes "ctx_user ctx = None" and "ca_phone input = Some phone" and "phone \<noteq> []"
    and "find (\<lambda>row. res_id row = ca_id input) (reservations s) = Some reservation"
    and "res_customerPhone reservation \<noteq> phone"
  shows "reservation_cancel input ctx s = (Inl FORBIDDEN, s)"
  using assms
  by (simp add: reservation_cancel_def publicProcedure_def inputSchema_def cancelSchema_def
      reservation_cancel_handler_def falsy_def)

lemma cancel_by_staff:
  assumes "ctx_user ctx = Some u"
    and "find (\<lambda>row. res_id row = ca_id input) (reservations s) = Some reservation"
  shows "\<exists>s'. reservation_cancel input ctx s
           = (Inr (reservation\<lparr>res_status := R_CANCELLED\<rparr>), s')"
proof -
  from find_Some_set [OF assms(2)]
  have "updateFirst (\<lambda>row. res_id row = ca_id input) (\<lambda>row. row\<lparr>res_status := R_CANCELLED\<rparr>)
          (reservations s) \<noteq> None"
    by (auto simp: updateFirst_None)
  then obtain y ys where u: "updateFirst (\<lambda>row. res_id row = ca_id input)
      (\<lambda>row. row\<lparr>res_status := R_CANCELLED\<rparr>) (reservations s) = Some (y, ys)"
    by auto
  from updateFirst_Some [OF u] assms(2) have "y = reservation\<lparr>res_status := R_CANCELLED\<rparr>"
    by auto
  with u assms(1) show ?thesis
    by (simp add: reservation_cancel_def publicProcedure_def inputSchema_def cancelSchema_def
        reservation_cancel_handler_def)
qed

text \<open>
  C5. An anonymous caller who sends no phone number, or an empty one, cancels the
  reservation of another customer: the ownership check of \<^verbatim>\<open>reservation.cancel\<close>
  runs only when a phone number is sent. With a phone number that does not match the
  call is \<open>FORBIDDEN\<close> and the row stays as it is; with the matching one it
  succeeds.
\<close>

theorem cancel_without_phone_unchecked:
  "reservation_cancel \<lparr>ca_id = 1, ca_phone = None\<rparr> exAnonymous exReserved
     = (Inr (exReservationRow 1 exMonday ''19:30:00'' R_CANCELLED),
        exReserved\<lparr>reservations := [exReservationRow 1 exMonday ''19:30:00'' R_CANCELLED]\<rparr>)
   \<and> reservation_cancel \<lparr>ca_id = 1, ca_phone = Some ''''\<rparr> exAnonymous exReserved
     = (Inr (exReservationRow 1 exMonday ''19:30:00'' R_CANCELLED),
        exReserved\<lparr>reservations := [exReservationRow 1 exMonday ''19:30:00'' R_CANCELLED]\<rparr>)
   \<and> reservation_cancel \<lparr>ca_id = 1, ca_phone = Some ''5500000000''\<rparr> exAnonymous exReserved
     = (Inl FORBIDDEN, exReserved)
   \<and> reservation_cancel \<lparr>ca_id = 1, ca_phone = Some ''5512345678''\<rparr> exAnonymous exReserved
     = (Inr (exReservationRow 1 exMonday ''19:30:00'' R_CANCELLED),
        exReserved\<lparr>reservations := [exReservationRow 1 exMonday ''19:30:00'' R_CANCELLED]\<rparr>)"
  by (simp add: times_defs handler_defs example_defs)

end
